theory Spec2Isabelle
  imports Main
begin

section \<open>The file transaction engine of \<^verbatim>\<open>core/agent.py\<close>\<close>

text \<open>
  The engine is the class \<^verbatim>\<open>AIAgent\<close>: \<^verbatim>\<open>write_file\<close>, \<^verbatim>\<open>remove_file\<close>,
  \<^verbatim>\<open>undo_last_operation\<close>, \<^verbatim>\<open>read_file\<close>, \<^verbatim>\<open>search_files\<close> and the private helpers
  \<^verbatim>\<open>_backup_file\<close> and \<^verbatim>\<open>_add_to_history\<close>. Each method becomes a function that takes the
  state (the files on disk, the history list and the configuration values the method reads)
  and returns the outcome together with the state it leaves behind. An exception that leaves a
  method is the \<open>Inl\<close> of a sum; the state next to it is what the method had already changed
  when it raised.
\<close>

subsection \<open>Paths, file contents, exceptions\<close>

text \<open>
  A path is the list of its components, as \<^verbatim>\<open>pathlib.Path\<close> parses the string; \<^verbatim>\<open>str(path)\<close>
  joins them again. A string of Python is the list of the bytes of its UTF-8 encoding, so its
  length here is \<^verbatim>\<open>len(s.encode('utf-8'))\<close>; line feed, carriage return and the dot are single
  bytes that occur in no other character. A regular file holds either text (\<open>Text t\<close>: its
  bytes \<open>t\<close> are valid UTF-8, carriage returns included) or bytes that are no valid UTF-8.
  Directories are not tracked: only regular files are in the map.
\<close>

type_synonym path = "string list"

datatype data = Text string | Binary string

datatype py_exn =
    FileOperationError string
  | UnicodeDecodeError string
  | PermissionError string
  | OSError string
  | ReError string
  | OtherException string

fun str_exn :: "py_exn \<Rightarrow> string" where
  "str_exn (FileOperationError m) = m"
| "str_exn (UnicodeDecodeError m) = m"
| "str_exn (PermissionError m) = m"
| "str_exn (OSError m) = m"
| "str_exn (ReError m) = m"
| "str_exn (OtherException m) = m"

fun str_path :: "path \<Rightarrow> string" where
  "str_path [] = ''.''"
| "str_path [c] = c"
| "str_path (c # cs) = c @ ''/'' @ str_path cs"

fun basename :: "path \<Rightarrow> string" where
  "basename [] = []"
| "basename [c] = c"
| "basename (c # cs) = basename cs"

subsection \<open>The environment of one call\<close>

text \<open>
  What a call reads from outside the program: the clock (already formatted, as
  \<^verbatim>\<open>strftime("%Y%m%d_%H%M%S")\<close> and \<^verbatim>\<open>isoformat()\<close> give it), for every primitive of the
  operating system and every path whether the primitive raises there (permissions, a full
  disk, a missing parent directory) and with which exception, the two time stamps of
  \<^verbatim>\<open>stat\<close>, and the directory walk: \<open>rglob e d\<close> is \<open>None\<close> when the directory \<open>d\<close> does
  not exist and otherwise the paths that \<^verbatim>\<open>Path(d).rglob('*')\<close> yields, in its order.
  A primitive that writes can raise after it has written: \<open>leaves e pr p\<close> is \<open>None\<close> when
  the raising primitive has not touched its target and \<open>Some d\<close> when it leaves the target
  holding \<open>d\<close> (a file that \<^verbatim>\<open>write_text\<close> has truncated before an encoding error, a copy
  whose content is written when \<^verbatim>\<open>copystat\<close> raises). \<open>str_lower\<close> and \<open>str_strip\<close> are
  Python's \<^verbatim>\<open>str.lower()\<close> and \<^verbatim>\<open>str.strip()\<close>, which follow the Unicode tables and are
  taken as given.
\<close>

datatype prim = Copy2 | ReadText | Mkdir | WriteText | Unlink | Stat

record env =
  strftime_now :: string
  isoformat_now :: string
  fault :: "prim \<Rightarrow> path \<Rightarrow> py_exn option"
  leaves :: "prim \<Rightarrow> path \<Rightarrow> data option"
  str_lower :: "string \<Rightarrow> string"
  str_strip :: "string \<Rightarrow> string"
  mtime_iso :: "path \<Rightarrow> string"
  ctime_iso :: "path \<Rightarrow> string"
  rglob :: "path \<Rightarrow> path list option"

record history_entry =
  operation :: string
  file_path :: path
  backup_path :: "path option"
  original_content :: string
  timestamp :: string

text \<open>
  \<open>backup_path\<close> is \<open>None\<close> where the source stores the empty string: \<^verbatim>\<open>_backup_file\<close>
  returns either \<^verbatim>\<open>''\<close> or the string of a path with at least one component.
  \<open>max_history\<close> and \<open>backup_enabled\<close> are the values under \<^verbatim>\<open>preferences\<close> in the
  configuration, \<open>None\<close> when the key is missing (then \<^verbatim>\<open>config.get\<close> returns its default).
\<close>

record state =
  files :: "path \<rightharpoonup> data"
  operation_history :: "history_entry list"
  max_history :: "int option"
  backup_enabled :: "bool option"
  backup_dir :: path

subsection \<open>Primitives of the operating system\<close>

text \<open>
  Each primitive first asks the environment whether it raises; otherwise it acts on the map of
  files, and raises what the operating system raises on a missing file, on bytes that do not
  decode, or on a copy of a file onto itself (the text of these messages is shortened).
  \<^verbatim>\<open>write_text\<close> and \<^verbatim>\<open>copy2\<close> return, next to the exception, the state they leave when
  they raise. The platform is POSIX: \<^verbatim>\<open>write_text\<close> stores the characters it is given.
\<close>

text \<open>Reading in text mode with universal newlines, as \<^verbatim>\<open>Path.read_text\<close> does: a carriage
  return followed by a line feed, and a carriage return alone, are read as one line feed.\<close>

fun universal_newlines :: "string \<Rightarrow> string" where
  "universal_newlines [] = []"
| "universal_newlines [c] = [if c = CHR 0x0D then CHR 0x0A else c]"
| "universal_newlines (c # d # cs) =
     (if c = CHR 0x0D
      then (if d = CHR 0x0A then CHR 0x0A # universal_newlines cs
            else CHR 0x0A # universal_newlines (d # cs))
      else c # universal_newlines (d # cs))"

text \<open>The state a raising primitive leaves: the target holds what the environment says.\<close>

definition left_by :: "env \<Rightarrow> prim \<Rightarrow> path \<Rightarrow> path \<Rightarrow> state \<Rightarrow> state" where
  "left_by e pr key target s =
     (case leaves e pr key of
        None \<Rightarrow> s
      | Some d \<Rightarrow> s\<lparr>files := (files s)(target \<mapsto> d)\<rparr>)"

definition path_exists :: "state \<Rightarrow> path \<Rightarrow> bool" where
  "path_exists s p = (files s p \<noteq> None)"

definition read_text :: "env \<Rightarrow> state \<Rightarrow> path \<Rightarrow> py_exn + string" where
  "read_text e s p =
     (case fault e ReadText p of
        Some x \<Rightarrow> Inl x
      | None \<Rightarrow>
          (case files s p of
             None \<Rightarrow> Inl (OSError (''No such file or directory: '' @ str_path p))
           | Some (Binary b) \<Rightarrow> Inl (UnicodeDecodeError ''utf-8 codec cannot decode'')
           | Some (Text t) \<Rightarrow> Inr (universal_newlines t)))"

definition write_text :: "env \<Rightarrow> state \<Rightarrow> path \<Rightarrow> string \<Rightarrow> py_exn \<times> state + state" where
  "write_text e s p t =
     (case fault e WriteText p of
        Some x \<Rightarrow> Inl (x, left_by e WriteText p p s)
      | None \<Rightarrow> Inr (s\<lparr>files := (files s)(p \<mapsto> Text t)\<rparr>))"

definition unlink :: "env \<Rightarrow> state \<Rightarrow> path \<Rightarrow> py_exn \<times> state + state" where
  "unlink e s p =
     (case fault e Unlink p of
        Some x \<Rightarrow> Inl (x, s)
      | None \<Rightarrow>
          (case files s p of
             None \<Rightarrow> Inl (OSError (''No such file or directory: '' @ str_path p), s)
           | Some d \<Rightarrow> Inr (s\<lparr>files := (files s)(p := None)\<rparr>)))"

text \<open>\<^verbatim>\<open>shutil.copy2(src, dst)\<close>: the fault, and what a raising copy leaves at \<open>dst\<close>, are
  looked up at the source.\<close>

definition copy2 :: "env \<Rightarrow> state \<Rightarrow> path \<Rightarrow> path \<Rightarrow> py_exn \<times> state + state" where
  "copy2 e s src dst =
     (case fault e Copy2 src of
        Some x \<Rightarrow> Inl (x, left_by e Copy2 src dst s)
      | None \<Rightarrow>
          (case files s src of
             None \<Rightarrow> Inl (OSError (''No such file or directory: '' @ str_path src), s)
           | Some d \<Rightarrow>
               if src = dst
               then Inl (OSError (str_path src @ '' and '' @ str_path dst @
                                  '' are the same file''), s)
               else Inr (s\<lparr>files := (files s)(dst \<mapsto> d)\<rparr>)))"

text \<open>\<^verbatim>\<open>path.parent.mkdir(parents=True, exist_ok=True)\<close>: directories are not tracked, so
  the call either raises or changes nothing that the engine reads.\<close>

definition mkdir_parent :: "env \<Rightarrow> state \<Rightarrow> path \<Rightarrow> py_exn \<times> state + state" where
  "mkdir_parent e s p =
     (case fault e Mkdir p of
        Some x \<Rightarrow> Inl (x, s)
      | None \<Rightarrow> Inr s)"

subsection \<open>\<^verbatim>\<open>_backup_file\<close> and \<^verbatim>\<open>_add_to_history\<close>\<close>

text \<open>The name under which \<^verbatim>\<open>_backup_file\<close> stores its copy:
  \<^verbatim>\<open>self.backup_dir / f"{filename}.backup_{timestamp}"\<close>.\<close>

definition backup_target :: "env \<Rightarrow> state \<Rightarrow> path \<Rightarrow> path" where
  "backup_target e s fp =
     (let timestamp = strftime_now e;
          filename = basename fp;
          backup_filename = filename @ ''.backup_'' @ timestamp
      in backup_dir s @ [backup_filename])"

definition backup_file :: "env \<Rightarrow> state \<Rightarrow> path \<Rightarrow> path option \<times> state" where
  "backup_file e s fp =
     (if \<not> path_exists s fp then (None, s)
      else
        (let bp = backup_target e s fp
         in case copy2 e s fp bp of
              Inr s' \<Rightarrow> (Some bp, s')
            | Inl (x, s') \<Rightarrow> (None, s')))"

text \<open>Python's \<^verbatim>\<open>xs[i:]\<close> for an integer \<open>i\<close>: a negative \<open>i\<close> counts from the end,
  and both ends are clamped.\<close>

definition py_slice_from :: "int \<Rightarrow> 'a list \<Rightarrow> 'a list" where
  "py_slice_from i xs =
     (if i < 0 then drop (nat (int (length xs) + i)) xs else drop (nat i) xs)"

text \<open>\<^verbatim>\<open>config.get('preferences.max_history', 100)\<close>\<close>

definition configured_max_history :: "state \<Rightarrow> int" where
  "configured_max_history s = (case max_history s of None \<Rightarrow> 100 | Some m \<Rightarrow> m)"

text \<open>The last two lines of \<^verbatim>\<open>_add_to_history\<close>:
  \<^verbatim>\<open>if len(h) > max_history: h = h[-max_history:]\<close>.\<close>

definition trim_history :: "int \<Rightarrow> 'a list \<Rightarrow> 'a list" where
  "trim_history mh h = (if int (length h) > mh then py_slice_from (- mh) h else h)"

definition add_to_history ::
  "env \<Rightarrow> state \<Rightarrow> string \<Rightarrow> path \<Rightarrow> path option \<Rightarrow> string \<Rightarrow> state" where
  "add_to_history e s opn fp bp oc =
     (let mh = configured_max_history s;
          h = operation_history s @
                [\<lparr>operation = opn, file_path = fp, backup_path = bp,
                  original_content = oc, timestamp = isoformat_now e\<rparr>]
      in s\<lparr>operation_history := trim_history mh h\<rparr>)"

subsection \<open>\<^verbatim>\<open>write_file\<close>, \<^verbatim>\<open>remove_file\<close>, \<^verbatim>\<open>undo_last_operation\<close>\<close>

record write_result =
  w_file_path :: path
  w_operation :: string
  w_backup_path :: "path option"
  w_bytes_written :: nat

record remove_result =
  r_file_path :: path
  r_operation :: string
  r_backup_path :: "path option"

record undo_result =
  u_undone_operation :: string
  u_file_path :: path
  u_timestamp :: string

text \<open>\<^verbatim>\<open>create_backup\<close> is \<open>None\<close> when the caller leaves the argument out; then the
  configuration decides, with \<^verbatim>\<open>True\<close> as its default.\<close>

definition use_backup :: "state \<Rightarrow> bool option \<Rightarrow> bool" where
  "use_backup s create_backup =
     (case create_backup of
        None \<Rightarrow> (case backup_enabled s of None \<Rightarrow> True | Some b \<Rightarrow> b)
      | Some b \<Rightarrow> b)"

text \<open>The two lines under \<^verbatim>\<open>if path.exists() and create_backup:\<close> (and under
  \<^verbatim>\<open>if create_backup:\<close> in \<^verbatim>\<open>remove_file\<close>): the snapshot, then the read of the prior text.\<close>

definition capture_prior ::
  "env \<Rightarrow> state \<Rightarrow> path \<Rightarrow> (py_exn + path option \<times> string option) \<times> state" where
  "capture_prior e s p =
     (case backup_file e s p of
        (bp, s1) \<Rightarrow>
          (case read_text e s1 p of
             Inl x \<Rightarrow> (Inl x, s1)
           | Inr t \<Rightarrow> (Inr (bp, Some t), s1)))"

definition or_empty :: "string option \<Rightarrow> string" where
  "or_empty oc = (case oc of None \<Rightarrow> [] | Some t \<Rightarrow> t)"

definition write_error :: "path \<Rightarrow> py_exn \<Rightarrow> py_exn" where
  "write_error p x =
     FileOperationError (''Error writing file '' @ str_path p @ '': '' @ str_exn x)"

definition write_file ::
  "env \<Rightarrow> state \<Rightarrow> path \<Rightarrow> string \<Rightarrow> bool option \<Rightarrow> (py_exn + write_result) \<times> state" where
  "write_file e s p content create_backup =
     (let cb = use_backup s create_backup in
      case (if path_exists s p \<and> cb then capture_prior e s p else (Inr (None, None), s)) of
        (Inl x, s1) \<Rightarrow> (Inl (write_error p x), s1)
      | (Inr (bp, oc), s1) \<Rightarrow>
          (case mkdir_parent e s1 p of
             Inl (x, s2) \<Rightarrow> (Inl (write_error p x), s2)
           | Inr s2 \<Rightarrow>
               (case write_text e s2 p content of
                  Inl (x, s3) \<Rightarrow> (Inl (write_error p x), s3)
                | Inr s3 \<Rightarrow>
                    (let opn = (if path_exists s3 p then ''modify'' else ''create'');
                         s4 = add_to_history e s3 opn p bp (or_empty oc)
                     in (Inr \<lparr>w_file_path = p, w_operation = opn, w_backup_path = bp,
                              w_bytes_written = length content\<rparr>, s4)))))"

definition remove_error :: "path \<Rightarrow> py_exn \<Rightarrow> py_exn" where
  "remove_error p x =
     FileOperationError (''Error removing file '' @ str_path p @ '': '' @ str_exn x)"

definition remove_file ::
  "env \<Rightarrow> state \<Rightarrow> path \<Rightarrow> bool option \<Rightarrow> (py_exn + remove_result) \<times> state" where
  "remove_file e s p create_backup =
     (if \<not> path_exists s p
      then (Inl (remove_error p (FileOperationError (''File not found: '' @ str_path p))), s)
      else
        (let cb = use_backup s create_backup in
         case (if cb then capture_prior e s p else (Inr (None, None), s)) of
           (Inl x, s1) \<Rightarrow> (Inl (remove_error p x), s1)
         | (Inr (bp, oc), s1) \<Rightarrow>
             (case unlink e s1 p of
                Inl (x, s2) \<Rightarrow> (Inl (remove_error p x), s2)
              | Inr s2 \<Rightarrow>
                  (let s3 = add_to_history e s2 ''remove'' p bp (or_empty oc)
                   in (Inr \<lparr>r_file_path = p, r_operation = ''remove'', r_backup_path = bp\<rparr>,
                       s3)))))"

text \<open>The body shared by the \<^verbatim>\<open>'modify'\<close> and the \<^verbatim>\<open>'remove'\<close> branch of
  \<^verbatim>\<open>undo_last_operation\<close>, which are the same four lines in the source.\<close>

definition restore_prior ::
  "env \<Rightarrow> state \<Rightarrow> path \<Rightarrow> path option \<Rightarrow> string \<Rightarrow> py_exn \<times> state + state" where
  "restore_prior e s p bp oc =
     (case bp of
        Some b \<Rightarrow>
          if path_exists s b then copy2 e s b p
          else if oc \<noteq> [] then write_text e s p oc
          else Inr s
      | None \<Rightarrow>
          if oc \<noteq> [] then write_text e s p oc
          else Inr s)"

definition undo_error :: "py_exn \<Rightarrow> py_exn" where
  "undo_error x = FileOperationError (''Error undoing operation: '' @ str_exn x)"

definition undo_last_operation :: "env \<Rightarrow> state \<Rightarrow> (py_exn + undo_result) \<times> state" where
  "undo_last_operation e s =
     (if operation_history s = []
      then (Inl (undo_error (FileOperationError ''No operations to undo'')), s)
      else
        (let last_op = last (operation_history s);
             s1 = s\<lparr>operation_history := butlast (operation_history s)\<rparr>;
             opn = operation last_op;
             fp = file_path last_op;
             bp = backup_path last_op;
             oc = original_content last_op
         in case (if opn = ''create'' then (if path_exists s1 fp then unlink e s1 fp else Inr s1)
                  else if opn = ''modify'' then restore_prior e s1 fp bp oc
                  else if opn = ''remove'' then restore_prior e s1 fp bp oc
                  else Inr s1) of
              Inl (x, s2) \<Rightarrow> (Inl (undo_error x), s2)
            | Inr s2 \<Rightarrow>
                (Inr \<lparr>u_undone_operation = opn, u_file_path = fp,
                      u_timestamp = timestamp last_op\<rparr>, s2)))"

definition get_operation_history :: "state \<Rightarrow> history_entry list" where
  "get_operation_history s = operation_history s"

definition clear_operation_history :: "state \<Rightarrow> nat \<times> state" where
  "clear_operation_history s = (length (operation_history s), s\<lparr>operation_history := []\<rparr>)"

subsection \<open>String helpers of the standard library\<close>

text \<open>\<^verbatim>\<open>content.split('\n')\<close>: always at least one piece.\<close>

fun split_nl :: "string \<Rightarrow> string list" where
  "split_nl [] = [[]]"
| "split_nl (c # cs) =
     (if c = CHR 0x0A then [] # split_nl cs
      else (case split_nl cs of [] \<Rightarrow> [[c]] | l # ls \<Rightarrow> (c # l) # ls))"

text \<open>\<^verbatim>\<open>Path.suffix\<close>: the part of the last component from its last dot, unless that dot is
  the first or the last character of the component.\<close>

definition suffix :: "path \<Rightarrow> string" where
  "suffix p =
     (let name = basename p;
          tail = takeWhile (\<lambda>c. c \<noteq> CHR ''.'') (rev name);
          i = length name - length tail - 1
      in if CHR ''.'' \<in> set name \<and> 0 < i \<and> tail \<noteq> [] then drop i name else [])"

subsection \<open>\<^verbatim>\<open>read_file\<close>\<close>

definition supported_extensions :: "(string \<times> string list) list" where
  "supported_extensions =
     [(''python'', [''.py'', ''.pyw'']),
      (''javascript'', [''.js'', ''.jsx'', ''.mjs'']),
      (''typescript'', [''.ts'', ''.tsx'']),
      (''html'', [''.html'', ''.htm'']),
      (''css'', [''.css'', ''.scss'', ''.sass'']),
      (''java'', [''.java'']),
      (''cpp'', [''.cpp'', ''.cc'', ''.cxx'', ''.c++'']),
      (''c'', [''.c'', ''.h'']),
      (''csharp'', [''.cs'']),
      (''php'', [''.php'']),
      (''ruby'', [''.rb'']),
      (''go'', [''.go'']),
      (''rust'', [''.rs'']),
      (''swift'', [''.swift'']),
      (''kotlin'', [''.kt'']),
      (''scala'', [''.scala'']),
      (''r'', [''.r'', ''.R'']),
      (''sql'', [''.sql'']),
      (''shell'', [''.sh'', ''.bash'', ''.zsh'']),
      (''powershell'', [''.ps1'']),
      (''yaml'', [''.yml'', ''.yaml'']),
      (''json'', [''.json'']),
      (''xml'', [''.xml'']),
      (''markdown'', [''.md'', ''.markdown'']),
      (''text'', [''.txt'']),
      (''config'', [''.conf'', ''.cfg'', ''.ini''])]"

definition language_of :: "string \<Rightarrow> string" where
  "language_of file_ext =
     (case find (\<lambda>(lang, extensions). file_ext \<in> set extensions) supported_extensions of
        None \<Rightarrow> ''unknown''
      | Some (lang, extensions) \<Rightarrow> lang)"

definition data_size :: "data \<Rightarrow> nat" where
  "data_size d = (case d of Text t \<Rightarrow> length t | Binary b \<Rightarrow> length b)"

text \<open>The second read of \<^verbatim>\<open>read_file\<close>, with \<^verbatim>\<open>encoding='latin-1'\<close>: every byte decodes.\<close>

definition read_text_latin1 :: "env \<Rightarrow> state \<Rightarrow> path \<Rightarrow> py_exn + string" where
  "read_text_latin1 e s p =
     (case files s p of
        None \<Rightarrow> Inl (OSError (''No such file or directory: '' @ str_path p))
      | Some (Binary b) \<Rightarrow> Inr (universal_newlines b)
      | Some (Text t) \<Rightarrow> Inr (universal_newlines t))"

record read_result =
  rd_file_path :: path
  rd_content :: string
  rd_size :: nat
  rd_lines :: nat
  rd_extension :: string
  rd_file_type :: string
  rd_language :: string
  rd_modified_time :: string
  rd_created_time :: string

definition read_error :: "path \<Rightarrow> py_exn \<Rightarrow> py_exn" where
  "read_error p x =
     FileOperationError (''Error reading file '' @ str_path p @ '': '' @ str_exn x)"

definition read_file :: "env \<Rightarrow> state \<Rightarrow> path \<Rightarrow> py_exn + read_result" where
  "read_file e s p =
     (case files s p of
        None \<Rightarrow> Inl (read_error p (FileOperationError (''File not found: '' @ str_path p)))
      | Some d \<Rightarrow>
          (case fault e Stat p of
             Some x \<Rightarrow> Inl (read_error p x)
           | None \<Rightarrow>
               (let file_ext = str_lower e (suffix p);
                    lang = language_of file_ext
                in case (case read_text e s p of
                           Inl (UnicodeDecodeError m) \<Rightarrow> read_text_latin1 e s p
                         | Inl x \<Rightarrow> Inl x
                         | Inr t \<Rightarrow> Inr t) of
                     Inl x \<Rightarrow> Inl (read_error p x)
                   | Inr content \<Rightarrow>
                       Inr \<lparr>rd_file_path = p, rd_content = content, rd_size = data_size d,
                            rd_lines = length (split_nl content), rd_extension = file_ext,
                            rd_file_type = lang, rd_language = lang,
                            rd_modified_time = mtime_iso e p,
                            rd_created_time = ctime_iso e p\<rparr>)))"

subsection \<open>\<^verbatim>\<open>search_files\<close>\<close>

text \<open>
  The regular-expression engine is Python's \<^verbatim>\<open>re\<close> module, taken as a parameter:
  \<open>re_search pat t\<close> stands for \<^verbatim>\<open>re.search(pat, t, re.IGNORECASE)\<close> being a match, and
  \<open>re_finditer pat t\<close> for \<^verbatim>\<open>list(re.finditer(pat, t, re.IGNORECASE))\<close>, each match given by
  \<^verbatim>\<open>match.start()\<close> (as a position in the text given) and \<^verbatim>\<open>match.group()\<close>. Both raise on
  a pattern that does not compile.
\<close>

record re_module =
  re_search :: "string \<Rightarrow> string \<Rightarrow> py_exn + bool"
  re_finditer :: "string \<Rightarrow> string \<Rightarrow> py_exn + (nat \<times> string) list"

record match_line =
  line_number :: nat
  line_content :: string
  match_text :: string

record file_info =
  fi_file_path :: path
  fi_filename :: string
  fi_extension :: string
  fi_size :: nat
  fi_content_matches :: "nat option"
  fi_match_lines :: "match_line list option"

record search_result =
  s_results :: "file_info list"
  s_total_files :: nat

definition line_num :: "string \<Rightarrow> nat \<times> string \<Rightarrow> nat" where
  "line_num content m = count_list (take (fst m) content) (CHR 0x0A) + 1"

text \<open>The loop \<^verbatim>\<open>for match in matches[:5]\<close> with its guard \<^verbatim>\<open>line_num <= len(lines)\<close>.\<close>

definition example_lines ::
  "env \<Rightarrow> string \<Rightarrow> (nat \<times> string) list \<Rightarrow> match_line list" where
  "example_lines e content matches =
     (let lines = split_nl content
      in map (\<lambda>m. \<lparr>line_number = line_num content m,
                     line_content = str_strip e (lines ! (line_num content m - 1)),
                     match_text = snd m\<rparr>)
           (filter (\<lambda>m. line_num content m \<le> length lines) (take 5 matches)))"

text \<open>The inner \<^verbatim>\<open>try\<close> of the loop body: \<^verbatim>\<open>except (UnicodeDecodeError, PermissionError):
  continue\<close>. \<open>Inr None\<close> is \<^verbatim>\<open>continue\<close>.\<close>

definition skip_or_raise :: "py_exn \<Rightarrow> py_exn + file_info option" where
  "skip_or_raise x =
     (case x of
        UnicodeDecodeError m \<Rightarrow> Inr None
      | PermissionError m \<Rightarrow> Inr None
      | _ \<Rightarrow> Inl x)"

definition content_search ::
  "re_module \<Rightarrow> env \<Rightarrow> state \<Rightarrow> string \<Rightarrow> path \<Rightarrow> file_info \<Rightarrow> py_exn + file_info option" where
  "content_search re e s content_pattern fp fi =
     (case read_text e s fp of
        Inl x \<Rightarrow> skip_or_raise x
      | Inr content \<Rightarrow>
          (case re_finditer re content_pattern content of
             Inl x \<Rightarrow> skip_or_raise x
           | Inr matches \<Rightarrow>
               if matches \<noteq> []
               then Inr (Some (fi\<lparr>fi_content_matches := Some (length matches),
                                  fi_match_lines := Some (example_lines e content matches)\<rparr>))
               else Inr None))"

text \<open>One turn of \<^verbatim>\<open>for file_path in search_dir.rglob('*')\<close>: \<open>Inr None\<close> is \<^verbatim>\<open>continue\<close>,
  \<open>Inr (Some fi)\<close> is \<^verbatim>\<open>results.append(file_info)\<close>, \<open>Inl\<close> an exception that leaves the
  loop.\<close>

definition search_step ::
  "re_module \<Rightarrow> env \<Rightarrow> state \<Rightarrow> string \<Rightarrow> string \<Rightarrow> string \<Rightarrow> path \<Rightarrow> py_exn + file_info option" where
  "search_step re e s pattern file_extension content_pattern fp =
     (case files s fp of
        None \<Rightarrow> Inr None
      | Some d \<Rightarrow>
          (let file_ext = str_lower e (suffix fp) in
           if file_extension \<noteq> [] \<and> file_ext \<noteq> file_extension then Inr None
           else
             (case (if pattern \<noteq> [] then re_search re pattern (basename fp) else Inr True) of
                Inl x \<Rightarrow> Inl x
              | Inr False \<Rightarrow> Inr None
              | Inr True \<Rightarrow>
                  (case fault e Stat fp of
                     Some x \<Rightarrow> Inl x
                   | None \<Rightarrow>
                       (let fi = \<lparr>fi_file_path = fp, fi_filename = basename fp,
                                  fi_extension = file_ext, fi_size = data_size d,
                                  fi_content_matches = None, fi_match_lines = None\<rparr>
                        in if content_pattern \<noteq> []
                           then content_search re e s content_pattern fp fi
                           else Inr (Some fi))))))"

fun search_loop ::
  "re_module \<Rightarrow> env \<Rightarrow> state \<Rightarrow> string \<Rightarrow> string \<Rightarrow> string \<Rightarrow> path list \<Rightarrow> file_info list
     \<Rightarrow> py_exn + file_info list" where
  "search_loop re e s pattern file_extension content_pattern [] results = Inr results"
| "search_loop re e s pattern file_extension content_pattern (fp # rest) results =
     (case search_step re e s pattern file_extension content_pattern fp of
        Inl x \<Rightarrow> Inl x
      | Inr None \<Rightarrow> search_loop re e s pattern file_extension content_pattern rest results
      | Inr (Some fi) \<Rightarrow>
          search_loop re e s pattern file_extension content_pattern rest (results @ [fi]))"

definition search_error :: "py_exn \<Rightarrow> py_exn" where
  "search_error x = FileOperationError (''Error searching files: '' @ str_exn x)"

definition search_files ::
  "re_module \<Rightarrow> env \<Rightarrow> state \<Rightarrow> path \<Rightarrow> string \<Rightarrow> string \<Rightarrow> string \<Rightarrow> py_exn + search_result" where
  "search_files re e s directory pattern file_extension content_pattern =
     (case rglob e directory of
        None \<Rightarrow>
          Inl (search_error (FileOperationError (''Directory not found: '' @ str_path directory)))
      | Some ps \<Rightarrow>
          (case search_loop re e s pattern file_extension content_pattern ps [] of
             Inl x \<Rightarrow> Inl (search_error x)
           | Inr results \<Rightarrow> Inr \<lparr>s_results = results, s_total_files = length results\<rparr>))"

section \<open>The tool registry of \<^verbatim>\<open>core/tools.py\<close>\<close>

text \<open>
  A tool is an entry of the dictionary \<^verbatim>\<open>self.tools\<close>. Its \<^verbatim>\<open>parameters\<close> are a dictionary
  from parameter names to their description, kept as the list of its items because
  \<^verbatim>\<open>execute_tool\<close> walks it in order; \<open>p_required\<close> is \<open>None\<close> when the description has no
  key \<^verbatim>\<open>'required'\<close>. The handler is any function of the keyword arguments that may change a
  state of type \<open>'w\<close> (the world it acts on) and either returns a dictionary or raises. A
  returned dictionary is \<open>ErrorDict m\<close> when it is \<^verbatim>\<open>{'error': m}\<close> and \<open>ResultDict\<close> otherwise.
\<close>

datatype pyval = Str string | Bool bool | Int int | NoneVal

datatype 'p response = ErrorDict string | ResultDict 'p

record param_info =
  p_type :: string
  p_required :: "bool option"
  p_description :: string

record ('w, 'p) tool =
  t_name :: string
  t_description :: string
  t_category :: string
  t_parameters :: "(string \<times> param_info) list"
  t_function :: "(string \<rightharpoonup> pyval) \<Rightarrow> 'w \<Rightarrow> (py_exn + 'p response) \<times> 'w"

definition dquote :: string where
  "dquote = [CHR 0x22]"

text \<open>\<^verbatim>\<open>param_info.get('required', False)\<close>\<close>

definition is_required :: "param_info \<Rightarrow> bool" where
  "is_required info = (case p_required info of None \<Rightarrow> False | Some b \<Rightarrow> b)"

text \<open>The validation loop: the name of the first required parameter that is not among the
  keyword arguments, at which the loop returns; \<open>None\<close> when the loop runs to its end.\<close>

fun first_missing :: "(string \<times> param_info) list \<Rightarrow> (string \<rightharpoonup> pyval) \<Rightarrow> string option" where
  "first_missing [] kwargs = None"
| "first_missing ((param_name, info) # rest) kwargs =
     (if is_required info \<and> kwargs param_name = None then Some param_name
      else first_missing rest kwargs)"

definition execute_tool ::
  "(string \<rightharpoonup> ('w, 'p) tool) \<Rightarrow> string \<Rightarrow> (string \<rightharpoonup> pyval) \<Rightarrow> 'w
     \<Rightarrow> (py_exn + 'p response) \<times> 'w" where
  "execute_tool tools tool_name kwargs w =
     (case tools tool_name of
        None \<Rightarrow> (Inr (ErrorDict (''Tool '' @ dquote @ tool_name @ dquote @ '' not found'')), w)
      | Some tool \<Rightarrow>
          (case first_missing (t_parameters tool) kwargs of
             Some param_name \<Rightarrow>
               (Inr (ErrorDict (''Required parameter '' @ dquote @ param_name @ dquote @
                                '' missing'')), w)
           | None \<Rightarrow>
               (case t_function tool kwargs w of
                  (Inl x, w') \<Rightarrow> (Inr (ErrorDict (''Tool execution failed: '' @ str_exn x)), w')
                | (Inr result, w') \<Rightarrow> (Inr result, w'))))"

text \<open>The handlers of the file tools, after Python has bound the keyword arguments to their
  parameters: each calls the engine inside \<^verbatim>\<open>try\<close> and turns an exception into
  \<^verbatim>\<open>{'error': str(e)}\<close>.\<close>

datatype payload =
    WritePayload write_result
  | SearchPayload search_result
  | RemovePayload remove_result
  | UndoPayload undo_result

definition fs_write ::
  "env \<Rightarrow> path \<Rightarrow> string \<Rightarrow> bool \<Rightarrow> state \<Rightarrow> (py_exn + payload response) \<times> state" where
  "fs_write e p content backup s =
     (case write_file e s p content (Some backup) of
        (Inl x, s') \<Rightarrow> (Inr (ErrorDict (str_exn x)), s')
      | (Inr r, s') \<Rightarrow> (Inr (ResultDict (WritePayload r)), s'))"

definition fs_remove ::
  "env \<Rightarrow> path \<Rightarrow> bool \<Rightarrow> state \<Rightarrow> (py_exn + payload response) \<times> state" where
  "fs_remove e p backup s =
     (case remove_file e s p (Some backup) of
        (Inl x, s') \<Rightarrow> (Inr (ErrorDict (str_exn x)), s')
      | (Inr r, s') \<Rightarrow> (Inr (ResultDict (RemovePayload r)), s'))"

definition fs_undo :: "env \<Rightarrow> state \<Rightarrow> (py_exn + payload response) \<times> state" where
  "fs_undo e s =
     (case undo_last_operation e s of
        (Inl x, s') \<Rightarrow> (Inr (ErrorDict (str_exn x)), s')
      | (Inr r, s') \<Rightarrow> (Inr (ResultDict (UndoPayload r)), s'))"

definition fs_search ::
  "re_module \<Rightarrow> env \<Rightarrow> path \<Rightarrow> string \<Rightarrow> string \<Rightarrow> string \<Rightarrow> state
     \<Rightarrow> (py_exn + payload response) \<times> state" where
  "fs_search re e directory pattern extension content s =
     (case search_files re e s directory pattern extension content of
        Inl x \<Rightarrow> (Inr (ErrorDict (str_exn x)), s)
      | Inr r \<Rightarrow> (Inr (ResultDict (SearchPayload r)), s))"

section \<open>Predicates of the specification\<close>

text \<open>
  The invariant the specification gives for an operation record, in its words: the backup
  reference \<^emph>\<open>resolves\<close> when it is not empty and names existing content; for the kinds
  \<^verbatim>\<open>modify\<close> and \<^verbatim>\<open>remove\<close> exactly one of \<open>resolves\<close> and a non-empty prior content holds,
  for \<^verbatim>\<open>create\<close> both are empty.
\<close>

definition resolves :: "state \<Rightarrow> history_entry \<Rightarrow> bool" where
  "resolves s r = (case backup_path r of None \<Rightarrow> False | Some b \<Rightarrow> path_exists s b)"

definition record_invariant :: "state \<Rightarrow> history_entry \<Rightarrow> bool" where
  "record_invariant s r =
     (if operation r = ''modify'' \<or> operation r = ''remove''
      then resolves s r \<noteq> (original_content r \<noteq> [])
      else if operation r = ''create'' then backup_path r = None \<and> original_content r = []
      else True)"

text \<open>
  The two shapes in which a call can end: it \<^emph>\<open>returns a result\<close> (a dictionary, of success or
  of failure), or an exception leaves it. The engine normalises what leaves it to one
  exception class.
\<close>

definition returns_result :: "py_exn + 'a \<Rightarrow> bool" where
  "returns_result r = (case r of Inl x \<Rightarrow> False | Inr v \<Rightarrow> True)"

definition raises_only_file_operation_error :: "py_exn + 'a \<Rightarrow> bool" where
  "raises_only_file_operation_error r =
     (case r of Inl (FileOperationError m) \<Rightarrow> True | Inl x \<Rightarrow> False | Inr v \<Rightarrow> True)"

section \<open>Concrete environments and states\<close>

text \<open>\<^verbatim>\<open>str.lower()\<close> and \<^verbatim>\<open>str.strip()\<close> as they act on ASCII text.\<close>

definition ascii_lower_char :: "char \<Rightarrow> char" where
  "ascii_lower_char c =
     (let n = (of_char c :: nat) in if 65 \<le> n \<and> n \<le> 90 then char_of (n + 32) else c)"

definition ascii_lower :: "string \<Rightarrow> string" where
  "ascii_lower t = map ascii_lower_char t"

definition ascii_space :: "char \<Rightarrow> bool" where
  "ascii_space c = (let n = (of_char c :: nat) in (9 \<le> n \<and> n \<le> 13) \<or> (28 \<le> n \<and> n \<le> 32))"

definition ascii_strip :: "string \<Rightarrow> string" where
  "ascii_strip t = rev (dropWhile ascii_space (rev (dropWhile ascii_space t)))"

text \<open>An environment in which no primitive raises, and one in which every copy does, before
  it has written anything.\<close>

definition quiet :: env where
  "quiet = \<lparr>strftime_now = ''20240101_120000'', isoformat_now = ''2024-01-01T12:00:00'',
            fault = (\<lambda>pr p. None), leaves = (\<lambda>pr p. None),
            str_lower = ascii_lower, str_strip = ascii_strip,
            mtime_iso = (\<lambda>p. ''2024-01-01T11:00:00''),
            ctime_iso = (\<lambda>p. ''2024-01-01T10:00:00''), rglob = (\<lambda>d. None)\<rparr>"

definition copy_failing :: env where
  "copy_failing =
     quiet\<lparr>fault := (\<lambda>pr p. if pr = Copy2 then Some (PermissionError ''Permission denied'')
                             else None)\<rparr>"

text \<open>A disk with no file, an empty history and the default configuration; and the same
  disk with the one file \<^verbatim>\<open>a.txt\<close>.\<close>

definition empty_disk :: state where
  "empty_disk = \<lparr>files = Map.empty, operation_history = [], max_history = None,
                 backup_enabled = None, backup_dir = [''home'', ''backups'']\<rparr>"

definition disk_with :: "string \<Rightarrow> state" where
  "disk_with t = empty_disk\<lparr>files := [[''a.txt''] \<mapsto> Text t]\<rparr>"

text \<open>The states after one mutation of \<^verbatim>\<open>a.txt\<close> in the quiet environment, and the name of
  the backup it takes there.\<close>

definition modified_disk :: state where
  "modified_disk = snd (write_file quiet (disk_with ''v1'') [''a.txt''] ''v2'' None)"

definition removed_v1_disk :: state where
  "removed_v1_disk = snd (remove_file quiet (disk_with ''v1'') [''a.txt''] None)"

definition removed_disk :: state where
  "removed_disk = snd (remove_file quiet (disk_with ''data'') [''a.txt''] None)"

definition backup_of_a :: path where
  "backup_of_a = [''home'', ''backups'', ''a.txt.backup_20240101_120000'']"



text \<open>Two configurations of \<^verbatim>\<open>max_history\<close>, and a run of writes with the default
  \<^verbatim>\<open>create_backup\<close>, each on the state the one before left.\<close>

definition unbounded_disk :: state where
  "unbounded_disk = empty_disk\<lparr>max_history := Some 0\<rparr>"

definition bounded_disk :: state where
  "bounded_disk = empty_disk\<lparr>max_history := Some 3\<rparr>"

fun write_all :: "state \<Rightarrow> (path \<times> string) list \<Rightarrow> state" where
  "write_all s [] = s"
| "write_all s ((p, c) # ws) = write_all (snd (write_file quiet s p c None)) ws"

text \<open>A registry of two tools over a counter of handler calls: one requires \<^verbatim>\<open>path\<close>, the
  other takes no parameter and always raises. And a call without keyword arguments.\<close>

definition counting_tool :: "(nat, unit) tool" where
  "counting_tool =
     \<lparr>t_name = ''probe'', t_description = ''Counts its calls'', t_category = ''Test'',
      t_parameters =
        [(''path'', \<lparr>p_type = ''string'', p_required = Some True, p_description = ''Path''\<rparr>),
         (''lines'', \<lparr>p_type = ''string'', p_required = Some False, p_description = ''Range''\<rparr>)],
      t_function = (\<lambda>kwargs n. (Inr (ResultDict ()), Suc n))\<rparr>"

definition raising_tool :: "(nat, unit) tool" where
  "raising_tool =
     \<lparr>t_name = ''boom'', t_description = ''Always raises'', t_category = ''Test'',
      t_parameters = [],
      t_function = (\<lambda>kwargs n. (Inl (OtherException ''boom''), Suc n))\<rparr>"

definition registry :: "string \<rightharpoonup> (nat, unit) tool" where
  "registry = [''probe'' \<mapsto> counting_tool, ''boom'' \<mapsto> raising_tool]"

definition no_arguments :: "string \<rightharpoonup> pyval" where
  "no_arguments = Map.empty"

text \<open>An engine for literal patterns, to run a search on: the occurrences of the pattern
  that do not overlap, from left to right, as \<^verbatim>\<open>re.finditer\<close> finds them for a pattern
  without special characters. \<open>skip\<close> counts the characters of the last match still to pass.\<close>

fun literal_matches :: "string \<Rightarrow> nat \<Rightarrow> nat \<Rightarrow> string \<Rightarrow> (nat \<times> string) list" where
  "literal_matches pat i skip [] = []"
| "literal_matches pat i skip (c # cs) =
     (if 0 < skip then literal_matches pat (i + 1) (skip - 1) cs
      else if pat \<noteq> [] \<and> take (length pat) (c # cs) = pat
           then (i, pat) # literal_matches pat (i + 1) (length pat - 1) cs
           else literal_matches pat (i + 1) 0 cs)"

definition literal_re :: re_module where
  "literal_re =
     \<lparr>re_search = (\<lambda>pat t. Inr (literal_matches pat 0 0 t \<noteq> [])),
      re_finditer = (\<lambda>pat t. Inr (literal_matches pat 0 0 t))\<rparr>"

text \<open>A directory with a file of eight lines \<^verbatim>\<open>class\<close>, a file that is no valid UTF-8, a
  file without the word and a file with the word once, indented on its second line; and what
  the search for \<^verbatim>\<open>class\<close> returns for the first and the last.\<close>

definition eight_classes :: string where
  "eight_classes = concat (replicate 8 (''class'' @ [CHR 0x0A]))"

definition one_class :: string where
  "one_class = ''x'' @ [CHR 0x0A] @ ''  class D''"

definition source_disk :: state where
  "source_disk =
     empty_disk\<lparr>files := [[''src'', ''a.py''] \<mapsto> Text eight_classes,
                           [''src'', ''b.bin''] \<mapsto> Binary ''xx'',
                           [''src'', ''c.py''] \<mapsto> Text ''def f'',
                           [''src'', ''d.py''] \<mapsto> Text one_class]\<rparr>"

definition walking :: env where
  "walking =
     quiet\<lparr>rglob := (\<lambda>d. if d = [''src'']
                          then Some [[''src'', ''a.py''], [''src'', ''b.bin''],
                                     [''src'', ''c.py''], [''src'', ''d.py'']]
                          else None)\<rparr>"

definition class_line :: "nat \<Rightarrow> match_line" where
  "class_line n = \<lparr>line_number = n, line_content = ''class'', match_text = ''class''\<rparr>"

definition found_a :: file_info where
  "found_a =
     \<lparr>fi_file_path = [''src'', ''a.py''], fi_filename = ''a.py'', fi_extension = ''.py'',
      fi_size = 48, fi_content_matches = Some 8,
      fi_match_lines =
        Some [class_line 1, class_line 2, class_line 3, class_line 4, class_line 5]\<rparr>"

definition found_d :: file_info where
  "found_d =
     \<lparr>fi_file_path = [''src'', ''d.py''], fi_filename = ''d.py'', fi_extension = ''.py'',
      fi_size = 11, fi_content_matches = Some 1,
      fi_match_lines =
        Some [\<lparr>line_number = 2, line_content = ''class D'', match_text = ''class''\<rparr>]\<rparr>"

section \<open>Properties\<close>

lemmas engine_defs = write_file_def remove_file_def undo_last_operation_def capture_prior_def
  backup_file_def backup_target_def add_to_history_def trim_history_def configured_max_history_def
  py_slice_from_def restore_prior_def use_backup_def
  or_empty_def path_exists_def read_text_def write_text_def unlink_def copy2_def mkdir_parent_def
  left_by_def
  write_error_def remove_error_def undo_error_def
  quiet_def copy_failing_def empty_disk_def disk_with_def Let_def

subsection \<open>The snapshot and the two mutations, step by step\<close>

text \<open>The copy never lands on the file it copies: its last component is longer.\<close>

lemma configured_max_history_files [simp]:
  "configured_max_history (s\<lparr>files := f\<rparr>) = configured_max_history s"
  by (simp add: configured_max_history_def)

lemma left_by_fields [simp]:
  "operation_history (left_by e pr k q s) = operation_history s"
  "max_history (left_by e pr k q s) = max_history s"
  "backup_enabled (left_by e pr k q s) = backup_enabled s"
  "backup_dir (left_by e pr k q s) = backup_dir s"
  by (simp_all add: left_by_def split: option.splits)

lemma left_by_elsewhere: "r \<noteq> q \<Longrightarrow> files (left_by e pr k q s) r = files s r"
  by (simp add: left_by_def split: option.splits)

lemma left_by_untouched [simp]: "leaves e pr k = None \<Longrightarrow> left_by e pr k q s = s"
  by (simp add: left_by_def)

lemma configured_max_history_left_by [simp]:
  "configured_max_history (left_by e pr k q s) = configured_max_history s"
  by (simp add: configured_max_history_def)

lemma universal_newlines_empty [simp]: "universal_newlines t = [] \<longleftrightarrow> t = []"
  by (induction t rule: universal_newlines.induct) auto

lemma basename_last: "p \<noteq> [] \<Longrightarrow> basename p = last p"
  by (induction p rule: basename.induct) auto

lemma backup_target_neq: "backup_target e s p \<noteq> p"
proof
  assume eq: "backup_target e s p = p"
  then have ne: "p \<noteq> []" by (auto simp: backup_target_def Let_def)
  from eq have "last p = last (backup_target e s p)" by simp
  then have "last p = basename p @ ''.backup_'' @ strftime_now e"
    by (simp add: backup_target_def Let_def)
  with ne have "length (last p) = length (last p @ ''.backup_'' @ strftime_now e)"
    by (simp add: basename_last)
  then show False by simp
qed

lemma backup_file_absent: "files s p = None \<Longrightarrow> backup_file e s p = (None, s)"
  by (simp add: backup_file_def path_exists_def)

lemma backup_file_copy_fails:
  "files s p = Some d \<Longrightarrow> fault e Copy2 p = Some x \<Longrightarrow>
   backup_file e s p = (None, left_by e Copy2 p (backup_target e s p) s)"
  by (simp add: backup_file_def path_exists_def copy2_def Let_def)

lemma backup_file_copied:
  "files s p = Some d \<Longrightarrow> fault e Copy2 p = None \<Longrightarrow>
   backup_file e s p =
     (Some (backup_target e s p), s\<lparr>files := (files s)(backup_target e s p \<mapsto> d)\<rparr>)"
  using backup_target_neq [of e s p]
  by (auto simp add: backup_file_def path_exists_def copy2_def Let_def)

lemma trim_history_snoc:
  assumes "0 \<le> mh"
  shows "\<exists>k. trim_history mh (h @ [r]) = drop k h @ [r]"
proof (cases "int (length (h @ [r])) > mh \<and> 0 < mh")
  case True
  then have "nat (int (length (h @ [r])) - mh) \<le> length h" by auto
  then have "drop (nat (int (length (h @ [r])) - mh)) (h @ [r])
               = drop (nat (int (length (h @ [r])) - mh)) h @ [r]" by simp
  with True show ?thesis
    by (auto simp add: trim_history_def py_slice_from_def)
next
  case False
  with assms have "trim_history mh (h @ [r]) = drop 0 h @ [r]"
    by (auto simp add: trim_history_def py_slice_from_def)
  then show ?thesis by blast
qed

lemma trim_history_last:
  assumes "0 \<le> mh"
  shows "trim_history mh (h @ [r]) \<noteq> [] \<and> last (trim_history mh (h @ [r])) = r"
  using trim_history_snoc [OF assms, of h r] by auto

lemma write_file_copy_fails:
  assumes "files s p = Some (Text t)" "use_backup s cb" "fault e Copy2 p = Some x"
    "fault e ReadText p = None" "fault e Mkdir p = None" "fault e WriteText p = None"
  shows "write_file e s p c cb =
     (Inr \<lparr>w_file_path = p, w_operation = ''modify'', w_backup_path = None,
           w_bytes_written = length c\<rparr>,
      add_to_history e
        ((left_by e Copy2 p (backup_target e s p) s)
           \<lparr>files := (files (left_by e Copy2 p (backup_target e s p) s))(p \<mapsto> Text c)\<rparr>)
        ''modify'' p None (universal_newlines t))"
proof -
  let ?s1 = "left_by e Copy2 p (backup_target e s p) s"
  have bf: "backup_file e s p = (None, ?s1)"
    using assms by (simp add: backup_file_copy_fails)
  have fp: "files ?s1 p = Some (Text t)"
    using assms backup_target_neq [of e s p] by (simp add: left_by_elsewhere)
  show ?thesis
    using assms bf fp
    by (simp add: write_file_def capture_prior_def read_text_def
        mkdir_parent_def write_text_def path_exists_def or_empty_def Let_def)
qed

lemma remove_file_copy_fails:
  assumes "files s p = Some (Text t)" "use_backup s cb" "fault e Copy2 p = Some x"
    "fault e ReadText p = None" "fault e Unlink p = None"
  shows "remove_file e s p cb =
     (Inr \<lparr>r_file_path = p, r_operation = ''remove'', r_backup_path = None\<rparr>,
      add_to_history e
        ((left_by e Copy2 p (backup_target e s p) s)
           \<lparr>files := (files (left_by e Copy2 p (backup_target e s p) s))(p := None)\<rparr>)
        ''remove'' p None (universal_newlines t))"
proof -
  let ?s1 = "left_by e Copy2 p (backup_target e s p) s"
  have bf: "backup_file e s p = (None, ?s1)"
    using assms by (simp add: backup_file_copy_fails)
  have fp: "files ?s1 p = Some (Text t)"
    using assms backup_target_neq [of e s p] by (simp add: left_by_elsewhere)
  show ?thesis
    using assms bf fp
    by (simp add: remove_file_def capture_prior_def read_text_def
        unlink_def path_exists_def or_empty_def Let_def)
qed

lemma write_file_copied:
  assumes "files s p = Some (Text t)" "use_backup s cb" "fault e Copy2 p = None"
    "fault e ReadText p = None" "fault e Mkdir p = None" "fault e WriteText p = None"
  shows "write_file e s p c cb =
     (Inr \<lparr>w_file_path = p, w_operation = ''modify'', w_backup_path = Some (backup_target e s p),
           w_bytes_written = length c\<rparr>,
      add_to_history e (s\<lparr>files := (files s)(backup_target e s p \<mapsto> Text t, p \<mapsto> Text c)\<rparr>)
         ''modify'' p (Some (backup_target e s p)) (universal_newlines t))"
  using assms backup_target_neq [of e s p]
  by (simp add: write_file_def capture_prior_def backup_file_copied read_text_def
      mkdir_parent_def write_text_def path_exists_def or_empty_def Let_def)


subsection \<open>Classification of a write\<close>

text \<open>
  The kind is computed by \<^verbatim>\<open>'modify' if path.exists() else 'create'\<close> after
  \<^verbatim>\<open>path.write_text\<close> has run, so the path always exists there: every write that succeeds is
  recorded and reported as \<^verbatim>\<open>modify\<close>.
\<close>

lemma write_file_always_modify:
  "write_file e s p c cb = (Inr res, s') \<Longrightarrow> w_operation res = ''modify''"
  by (auto simp add: write_file_def write_text_def path_exists_def Let_def
      split: prod.splits sum.splits if_splits option.splits)

text \<open>
  C2. The claim: the operation recorded in the history and returned in the success payload is
  Create if and only if the path did not exist before the write, and Modify otherwise.
  On a disk without \<^verbatim>\<open>a.txt\<close>, \<^verbatim>\<open>write_file('a.txt', 'hello')\<close> returns the kind
  \<^verbatim>\<open>modify\<close> and records \<^verbatim>\<open>modify\<close>, where the claim asks for Create.
\<close>

theorem write_file_fresh_path_recorded_as_modify:
  "files empty_disk [''a.txt''] = None \<and>
   fst (write_file quiet empty_disk [''a.txt''] ''hello'' None) =
     Inr \<lparr>w_file_path = [''a.txt''], w_operation = ''modify'', w_backup_path = None,
          w_bytes_written = 5\<rparr> \<and>
   operation_history (snd (write_file quiet empty_disk [''a.txt''] ''hello'' None)) =
     [\<lparr>operation = ''modify'', file_path = [''a.txt''], backup_path = None,
       original_content = [], timestamp = ''2024-01-01T12:00:00''\<rparr>]"
  by (simp add: engine_defs)

subsection \<open>Write, then undo\<close>

text \<open>
  C1. The claim: write, then undo, leaves the content and existence of the file as they were
  before the write; a write to a path that did not exist, then undo, leaves the path
  nonexistent. On a disk without \<^verbatim>\<open>a.txt\<close>, after \<^verbatim>\<open>write_file('a.txt', 'hello')\<close> and
  \<^verbatim>\<open>undo_last_operation()\<close> the undo reports success for a \<^verbatim>\<open>modify\<close> and the file is still
  there with the content \<^verbatim>\<open>hello\<close>: the record has no backup and no prior content, so the
  \<^verbatim>\<open>modify\<close> branch restores nothing, and the \<^verbatim>\<open>create\<close> branch that would delete the file is
  never reached.
\<close>

theorem write_then_undo_fresh_path_keeps_file:
  "files empty_disk [''a.txt''] = None \<and>
   fst (undo_last_operation quiet (snd (write_file quiet empty_disk [''a.txt''] ''hello'' None))) =
     Inr \<lparr>u_undone_operation = ''modify'', u_file_path = [''a.txt''],
          u_timestamp = ''2024-01-01T12:00:00''\<rparr> \<and>
   files (snd (undo_last_operation quiet
            (snd (write_file quiet empty_disk [''a.txt''] ''hello'' None)))) [''a.txt'']
     = Some (Text ''hello'')"
  by (simp add: engine_defs)

text \<open>
  For a file that existed, the round trip does hold when the backup was taken: the target is a
  text file, backups are enabled, \<^verbatim>\<open>max_history\<close> is not negative and no primitive but the
  backup copy raises. When the copy failed, the undo writes back the prior content as it was
  read (carriage returns read as line feeds), and nothing if the file was empty.
\<close>

lemma write_then_undo_existing_restores:
  assumes ex: "files s p = Some (Text t)"
    and cb: "use_backup s cb"
    and mh: "0 \<le> configured_max_history s"
    and f1: "fault e ReadText p = None" "fault e Mkdir p = None" "fault e WriteText p = None"
    and f2: "fault e' Copy2 (backup_target e s p) = None" "fault e' WriteText p = None"
    and wr: "write_file e s p c cb = (r1, s1)"
    and un: "undo_last_operation e' s1 = (r2, s2)"
  shows "files s2 p =
           (if fault e Copy2 p = None then Some (Text t)
            else if t = [] then Some (Text c)
            else Some (Text (universal_newlines t))) \<and>
         operation_history s2 = butlast (operation_history s1)"
proof (cases "fault e Copy2 p")
  case None
  let ?b = "backup_target e s p"
  let ?r = "\<lparr>operation = ''modify'', file_path = p, backup_path = Some ?b,
             original_content = universal_newlines t, timestamp = isoformat_now e\<rparr>"
  let ?s0 = "s\<lparr>files := (files s)(?b \<mapsto> Text t, p \<mapsto> Text c)\<rparr>"
  have "write_file e s p c cb =
      (Inr \<lparr>w_file_path = p, w_operation = ''modify'', w_backup_path = Some ?b,
            w_bytes_written = length c\<rparr>,
       add_to_history e ?s0 ''modify'' p (Some ?b) (universal_newlines t))"
    using write_file_copied [OF ex cb None f1] .
  with wr have s1: "s1 = add_to_history e ?s0 ''modify'' p (Some ?b) (universal_newlines t)"
    by simp
  obtain k where k: "trim_history (configured_max_history s) (operation_history s @ [?r])
      = drop k (operation_history s) @ [?r]"
    using trim_history_snoc [OF mh, of "operation_history s" ?r] by auto
  have h1: "operation_history s1 = drop k (operation_history s) @ [?r]"
    using k by (simp add: s1 add_to_history_def Let_def)
  have bne: "?b \<noteq> p" by (rule backup_target_neq)
  have flb: "files s1 ?b = Some (Text t)"
    using bne by (simp add: s1 add_to_history_def Let_def)
  have "undo_last_operation e' s1 =
      (Inr \<lparr>u_undone_operation = ''modify'', u_file_path = p, u_timestamp = isoformat_now e\<rparr>,
       s1\<lparr>operation_history := drop k (operation_history s),
            files := (files s1)(p \<mapsto> Text t)\<rparr>)"
    using h1 flb bne f2
    by (simp add: undo_last_operation_def restore_prior_def path_exists_def copy2_def Let_def)
  with un have s2: "s2 = s1\<lparr>operation_history := drop k (operation_history s),
            files := (files s1)(p \<mapsto> Text t)\<rparr>"
    by simp
  show ?thesis
    using None by (simp add: s2 h1)
next
  case (Some x)
  let ?u = "universal_newlines t"
  let ?r = "\<lparr>operation = ''modify'', file_path = p, backup_path = None,
             original_content = ?u, timestamp = isoformat_now e\<rparr>"
  let ?l = "left_by e Copy2 p (backup_target e s p) s"
  let ?s0 = "?l\<lparr>files := (files ?l)(p \<mapsto> Text c)\<rparr>"
  have "write_file e s p c cb =
      (Inr \<lparr>w_file_path = p, w_operation = ''modify'', w_backup_path = None,
            w_bytes_written = length c\<rparr>,
       add_to_history e ?s0 ''modify'' p None ?u)"
    using write_file_copy_fails [OF ex cb Some f1] .
  with wr have s1: "s1 = add_to_history e ?s0 ''modify'' p None ?u"
    by simp
  obtain k where k: "trim_history (configured_max_history s) (operation_history s @ [?r])
      = drop k (operation_history s) @ [?r]"
    using trim_history_snoc [OF mh, of "operation_history s" ?r] by auto
  have h1: "operation_history s1 = drop k (operation_history s) @ [?r]"
    using k by (simp add: s1 add_to_history_def Let_def)
  have flp: "files s1 p = Some (Text c)"
    by (simp add: s1 add_to_history_def Let_def)
  have "undo_last_operation e' s1 =
      (Inr \<lparr>u_undone_operation = ''modify'', u_file_path = p, u_timestamp = isoformat_now e\<rparr>,
       s1\<lparr>operation_history := drop k (operation_history s),
            files := (if t \<noteq> [] then (files s1)(p \<mapsto> Text ?u) else files s1)\<rparr>)"
    using h1 f2
    by (simp add: undo_last_operation_def restore_prior_def write_text_def Let_def)
  with un have s2: "s2 = s1\<lparr>operation_history := drop k (operation_history s),
            files := (if t \<noteq> [] then (files s1)(p \<mapsto> Text ?u) else files s1)\<rparr>"
    by simp
  show ?thesis
    using Some flp by (simp add: s2 h1)
qed

subsection \<open>What a record holds\<close>

text \<open>
  C3, as the specification states it: for the kinds \<^verbatim>\<open>modify\<close> and \<^verbatim>\<open>remove\<close> exactly one of
  "the backup reference resolves" and "the prior content is not empty" holds. After
  \<^verbatim>\<open>write_file('a.txt', 'v2')\<close> over a file that holds \<^verbatim>\<open>v1\<close>, with backups enabled and a
  copy that succeeds, the record has both, so the invariant fails for the history.
\<close>

theorem record_invariant_fails_after_modify:
  "\<not> list_all (record_invariant (snd (write_file quiet (disk_with ''v1'') [''a.txt''] ''v2'' None)))
       (operation_history (snd (write_file quiet (disk_with ''v1'') [''a.txt''] ''v2'' None)))"
  by (simp add: engine_defs record_invariant_def resolves_def)

text \<open>
  C3, amended: a successful \<^verbatim>\<open>write_file\<close> or \<^verbatim>\<open>remove_file\<close> appends one record (the history
  is the old one with the record appended, then trimmed; for a \<^verbatim>\<open>max_history\<close> that is not
  negative the record is its newest entry). The record names the target, carries the time of
  the call and the backup reference of the result. When the target existed and backups were
  enabled (\<^verbatim>\<open>remove_file\<close>: when backups were enabled), its prior content is the text of the
  file as \<^verbatim>\<open>read_text\<close> returns it (a carriage return read as a line feed), and its backup
  reference is there and resolves, to a copy of what the file held, exactly when the copy did
  not raise. So both hold together when the copy succeeded on a non-empty file, only the prior
  content when the copy failed, only the backup when the file was empty. Otherwise the record
  has no backup reference and an empty prior content.
\<close>

theorem appended_record_shape:
  "(write_file e s p c cb = (Inr res, s') \<longrightarrow>
      (\<exists>opn oc r.
         r = \<lparr>operation = opn, file_path = p, backup_path = w_backup_path res,
               original_content = oc, timestamp = isoformat_now e\<rparr> \<and>
         operation_history s' =
           trim_history (configured_max_history s) (operation_history s @ [r]) \<and>
         (0 \<le> configured_max_history s \<longrightarrow>
            operation_history s' \<noteq> [] \<and> last (operation_history s') = r) \<and>
         (if path_exists s p \<and> use_backup s cb
          then opn = ''modify'' \<and>
               (\<exists>t. files s p = Some (Text t) \<and> oc = universal_newlines t \<and>
                    (oc \<noteq> []) = (t \<noteq> [])) \<and>
               resolves s' r = (fault e Copy2 p = None) \<and>
               (if fault e Copy2 p = None
                then w_backup_path res = Some (backup_target e s p) \<and>
                     files s' (backup_target e s p) = files s p
                else w_backup_path res = None)
          else w_backup_path res = None \<and> oc = [] \<and> \<not> resolves s' r))) \<and>
   (remove_file e s p cb = (Inr rres, s'') \<longrightarrow>
      (\<exists>oc r.
         r = \<lparr>operation = ''remove'', file_path = p, backup_path = r_backup_path rres,
               original_content = oc, timestamp = isoformat_now e\<rparr> \<and>
         operation_history s'' =
           trim_history (configured_max_history s) (operation_history s @ [r]) \<and>
         (0 \<le> configured_max_history s \<longrightarrow>
            operation_history s'' \<noteq> [] \<and> last (operation_history s'') = r) \<and>
         (if use_backup s cb
          then (\<exists>t. files s p = Some (Text t) \<and> oc = universal_newlines t \<and>
                    (oc \<noteq> []) = (t \<noteq> [])) \<and>
               resolves s'' r = (fault e Copy2 p = None) \<and>
               (if fault e Copy2 p = None
                then r_backup_path rres = Some (backup_target e s p) \<and>
                     files s'' (backup_target e s p) = files s p
                else r_backup_path rres = None)
          else r_backup_path rres = None \<and> oc = [] \<and> \<not> resolves s'' r)))"
proof (rule conjI; rule impI)
  assume w: "write_file e s p c cb = (Inr res, s')"
  let ?goal = "\<exists>opn oc r.
         r = \<lparr>operation = opn, file_path = p, backup_path = w_backup_path res,
               original_content = oc, timestamp = isoformat_now e\<rparr> \<and>
         operation_history s' =
           trim_history (configured_max_history s) (operation_history s @ [r]) \<and>
         (0 \<le> configured_max_history s \<longrightarrow>
            operation_history s' \<noteq> [] \<and> last (operation_history s') = r) \<and>
         (if path_exists s p \<and> use_backup s cb
          then opn = ''modify'' \<and>
               (\<exists>t. files s p = Some (Text t) \<and> oc = universal_newlines t \<and>
                    (oc \<noteq> []) = (t \<noteq> [])) \<and>
               resolves s' r = (fault e Copy2 p = None) \<and>
               (if fault e Copy2 p = None
                then w_backup_path res = Some (backup_target e s p) \<and>
                     files s' (backup_target e s p) = files s p
                else w_backup_path res = None)
          else w_backup_path res = None \<and> oc = [] \<and> \<not> resolves s' r)"
  show ?goal
  proof (cases "path_exists s p \<and> use_backup s cb")
    case False
    with w show ?thesis
      by (auto simp add: write_file_def mkdir_parent_def write_text_def add_to_history_def
          or_empty_def resolves_def trim_history_last Let_def
          split: option.splits sum.splits prod.splits)
  next
    case True
    then obtain d where d: "files s p = Some d" by (auto simp: path_exists_def)
    show ?thesis
    proof (cases "fault e Copy2 p")
      case None
      with w True d backup_target_neq [of e s p] show ?thesis
        by (auto simp add: write_file_def capture_prior_def backup_file_copied read_text_def
            mkdir_parent_def write_text_def add_to_history_def path_exists_def
            or_empty_def resolves_def trim_history_last Let_def
            split: option.splits data.splits sum.splits prod.splits)
    next
      case (Some x)
      with w True d backup_target_neq [of e s p] show ?thesis
        by (auto simp add: write_file_def capture_prior_def backup_file_copy_fails read_text_def
            mkdir_parent_def write_text_def add_to_history_def path_exists_def
            left_by_elsewhere or_empty_def resolves_def trim_history_last Let_def
            split: option.splits data.splits sum.splits prod.splits)
    qed
  qed
next
  assume w: "remove_file e s p cb = (Inr rres, s'')"
  then have ex: "path_exists s p"
    by (auto simp: remove_file_def split: if_splits)
  then obtain d where d: "files s p = Some d" by (auto simp: path_exists_def)
  let ?goal = "\<exists>oc r.
         r = \<lparr>operation = ''remove'', file_path = p, backup_path = r_backup_path rres,
               original_content = oc, timestamp = isoformat_now e\<rparr> \<and>
         operation_history s'' =
           trim_history (configured_max_history s) (operation_history s @ [r]) \<and>
         (0 \<le> configured_max_history s \<longrightarrow>
            operation_history s'' \<noteq> [] \<and> last (operation_history s'') = r) \<and>
         (if use_backup s cb
          then (\<exists>t. files s p = Some (Text t) \<and> oc = universal_newlines t \<and>
                    (oc \<noteq> []) = (t \<noteq> [])) \<and>
               resolves s'' r = (fault e Copy2 p = None) \<and>
               (if fault e Copy2 p = None
                then r_backup_path rres = Some (backup_target e s p) \<and>
                     files s'' (backup_target e s p) = files s p
                else r_backup_path rres = None)
          else r_backup_path rres = None \<and> oc = [] \<and> \<not> resolves s'' r)"
  show ?goal
  proof (cases "use_backup s cb")
    case False
    with w ex d show ?thesis
      by (auto simp add: remove_file_def unlink_def add_to_history_def
          or_empty_def resolves_def trim_history_last Let_def
          split: option.splits sum.splits prod.splits)
  next
    case True
    show ?thesis
    proof (cases "fault e Copy2 p")
      case None
      with w True ex d backup_target_neq [of e s p] show ?thesis
        by (auto simp add: remove_file_def capture_prior_def backup_file_copied read_text_def
            unlink_def add_to_history_def path_exists_def
            or_empty_def resolves_def trim_history_last Let_def
            split: option.splits data.splits sum.splits prod.splits)
    next
      case (Some x)
      with w True ex d backup_target_neq [of e s p] show ?thesis
        by (auto simp add: remove_file_def capture_prior_def backup_file_copy_fails read_text_def
            unlink_def add_to_history_def path_exists_def
            left_by_elsewhere or_empty_def resolves_def trim_history_last Let_def
            split: option.splits data.splits sum.splits prod.splits)
    qed
  qed
qed

theorem appended_record_shape_witness:
  "write_file quiet (disk_with ''v1'') [''a.txt''] ''v2'' None =
     (Inr \<lparr>w_file_path = [''a.txt''], w_operation = ''modify'',
           w_backup_path = Some backup_of_a, w_bytes_written = 2\<rparr>, modified_disk) \<and>
   remove_file quiet (disk_with ''v1'') [''a.txt''] None =
     (Inr \<lparr>r_file_path = [''a.txt''], r_operation = ''remove'',
           r_backup_path = Some backup_of_a\<rparr>, removed_v1_disk) \<and>
   operation_history modified_disk =
     [\<lparr>operation = ''modify'', file_path = [''a.txt''], backup_path = Some backup_of_a,
       original_content = ''v1'', timestamp = ''2024-01-01T12:00:00''\<rparr>] \<and>
   files modified_disk backup_of_a = Some (Text ''v1'') \<and>
   operation_history removed_v1_disk =
     [\<lparr>operation = ''remove'', file_path = [''a.txt''], backup_path = Some backup_of_a,
       original_content = ''v1'', timestamp = ''2024-01-01T12:00:00''\<rparr>] \<and>
   files removed_v1_disk backup_of_a = Some (Text ''v1'')"
proof -
  have h1: "write_file quiet (disk_with ''v1'') [''a.txt''] ''v2'' None =
     (Inr \<lparr>w_file_path = [''a.txt''], w_operation = ''modify'',
           w_backup_path = Some backup_of_a, w_bytes_written = 2\<rparr>, modified_disk)"
    by (simp add: prod_eq_iff modified_disk_def backup_of_a_def) (simp add: engine_defs)
  have h2: "remove_file quiet (disk_with ''v1'') [''a.txt''] None =
     (Inr \<lparr>r_file_path = [''a.txt''], r_operation = ''remove'',
           r_backup_path = Some backup_of_a\<rparr>, removed_v1_disk)"
    by (simp add: prod_eq_iff removed_v1_disk_def backup_of_a_def) (simp add: engine_defs)
  have ex: "path_exists (disk_with ''v1'') [''a.txt''] \<and> use_backup (disk_with ''v1'') None"
    by (simp add: path_exists_def use_backup_def disk_with_def empty_disk_def)
  have fl: "files (disk_with ''v1'') [''a.txt''] = Some (Text ''v1'')"
    by (simp add: disk_with_def empty_disk_def)
  have tr: "\<And>r. trim_history (configured_max_history (disk_with ''v1''))
             (operation_history (disk_with ''v1'') @ [r]) = [r]"
    by (simp add: trim_history_def configured_max_history_def disk_with_def empty_disk_def)
  have cp: "fault quiet Copy2 [''a.txt''] = None" by (simp add: quiet_def)
  have bt: "backup_target quiet (disk_with ''v1'') [''a.txt''] = backup_of_a"
    by (simp add: backup_target_def backup_of_a_def quiet_def disk_with_def empty_disk_def)
  have iso: "isoformat_now quiet = ''2024-01-01T12:00:00''" by (simp add: quiet_def)
  note a = appended_record_shape [of quiet "disk_with ''v1''" "[''a.txt'']" "''v2''" None
      "\<lparr>w_file_path = [''a.txt''], w_operation = ''modify'',
        w_backup_path = Some backup_of_a, w_bytes_written = 2\<rparr>" modified_disk
      "\<lparr>r_file_path = [''a.txt''], r_operation = ''remove'',
        r_backup_path = Some backup_of_a\<rparr>" removed_v1_disk]
  from a h1 have c1: "operation_history modified_disk =
     [\<lparr>operation = ''modify'', file_path = [''a.txt''], backup_path = Some backup_of_a,
       original_content = ''v1'', timestamp = ''2024-01-01T12:00:00''\<rparr>] \<and>
     files modified_disk backup_of_a = Some (Text ''v1'')"
    using ex fl tr cp bt iso by auto
  from a h2 have c2: "operation_history removed_v1_disk =
     [\<lparr>operation = ''remove'', file_path = [''a.txt''], backup_path = Some backup_of_a,
       original_content = ''v1'', timestamp = ''2024-01-01T12:00:00''\<rparr>] \<and>
     files removed_v1_disk backup_of_a = Some (Text ''v1'')"
    using ex fl tr cp bt iso by auto
  from h1 h2 c1 c2 show ?thesis by blast
qed

subsection \<open>A failing backup\<close>

text \<open>
  C4: with backups enabled, a failure of the backup step never blocks the mutation. When the
  copy raises, \<^verbatim>\<open>_backup_file\<close> returns the empty reference (as it does, touching nothing,
  for a source that does not exist) and the disk is as the failed copy left it;
  \<^verbatim>\<open>write_file\<close> and \<^verbatim>\<open>remove_file\<close> still succeed when their own steps do, the file is
  written or removed, and the appended record has no backup reference and the prior text of
  the file, as read, as its prior content.
\<close>

theorem backup_failure_does_not_block:
  assumes "files s p = Some (Text t)" and "use_backup s cb"
    and "fault e Copy2 p = Some x" and "fault e ReadText p = None"
  shows "backup_file e s p = (None, left_by e Copy2 p (backup_target e s p) s) \<and>
    (leaves e Copy2 p = None \<longrightarrow> backup_file e s p = (None, s)) \<and>
    (\<forall>q. files s q = None \<longrightarrow> backup_file e s q = (None, s)) \<and>
    (fault e Mkdir p = None \<and> fault e WriteText p = None \<longrightarrow>
       (\<exists>s'. write_file e s p c cb =
            (Inr \<lparr>w_file_path = p, w_operation = ''modify'', w_backup_path = None,
                  w_bytes_written = length c\<rparr>, s') \<and>
          files s' = (files (left_by e Copy2 p (backup_target e s p) s))(p \<mapsto> Text c) \<and>
          operation_history s' = trim_history (configured_max_history s)
            (operation_history s @
               [\<lparr>operation = ''modify'', file_path = p, backup_path = None,
                 original_content = universal_newlines t, timestamp = isoformat_now e\<rparr>]))) \<and>
    (fault e Unlink p = None \<longrightarrow>
       (\<exists>s'. remove_file e s p cb =
            (Inr \<lparr>r_file_path = p, r_operation = ''remove'', r_backup_path = None\<rparr>, s') \<and>
          files s' = (files (left_by e Copy2 p (backup_target e s p) s))(p := None) \<and>
          operation_history s' = trim_history (configured_max_history s)
            (operation_history s @
               [\<lparr>operation = ''remove'', file_path = p, backup_path = None,
                 original_content = universal_newlines t, timestamp = isoformat_now e\<rparr>])))"
  using assms
  by (auto simp add: backup_file_copy_fails backup_file_absent write_file_copy_fails
      remove_file_copy_fails add_to_history_def Let_def)

theorem backup_failure_does_not_block_witness:
  "files (disk_with ''v1'') [''a.txt''] = Some (Text ''v1'') \<and>
   use_backup (disk_with ''v1'') None \<and>
   fault copy_failing Copy2 [''a.txt''] = Some (PermissionError ''Permission denied'') \<and>
   fault copy_failing ReadText [''a.txt''] = None \<and>
   fault copy_failing Mkdir [''a.txt''] = None \<and>
   fault copy_failing WriteText [''a.txt''] = None \<and>
   fault copy_failing Unlink [''a.txt''] = None \<and>
   files (disk_with ''v1'') [''b.txt''] = None \<and>
   backup_file copy_failing (disk_with ''v1'') [''a.txt''] = (None, disk_with ''v1'') \<and>
   backup_file copy_failing (disk_with ''v1'') [''b.txt''] = (None, disk_with ''v1'') \<and>
   fst (write_file copy_failing (disk_with ''v1'') [''a.txt''] ''v2'' None) =
     Inr \<lparr>w_file_path = [''a.txt''], w_operation = ''modify'', w_backup_path = None,
          w_bytes_written = 2\<rparr> \<and>
   files (snd (write_file copy_failing (disk_with ''v1'') [''a.txt''] ''v2'' None)) [''a.txt'']
     = Some (Text ''v2'') \<and>
   operation_history (snd (write_file copy_failing (disk_with ''v1'') [''a.txt''] ''v2'' None)) =
     [\<lparr>operation = ''modify'', file_path = [''a.txt''], backup_path = None,
       original_content = ''v1'', timestamp = ''2024-01-01T12:00:00''\<rparr>] \<and>
   fst (remove_file copy_failing (disk_with ''v1'') [''a.txt''] None) =
     Inr \<lparr>r_file_path = [''a.txt''], r_operation = ''remove'', r_backup_path = None\<rparr> \<and>
   files (snd (remove_file copy_failing (disk_with ''v1'') [''a.txt''] None)) [''a.txt''] = None \<and>
   operation_history (snd (remove_file copy_failing (disk_with ''v1'') [''a.txt''] None)) =
     [\<lparr>operation = ''remove'', file_path = [''a.txt''], backup_path = None,
       original_content = ''v1'', timestamp = ''2024-01-01T12:00:00''\<rparr>]"
proof -
  have h1: "files (disk_with ''v1'') [''a.txt''] = Some (Text ''v1'')"
    by (simp add: disk_with_def empty_disk_def)
  have h2: "use_backup (disk_with ''v1'') None"
    by (simp add: use_backup_def disk_with_def empty_disk_def)
  have h3: "fault copy_failing Copy2 [''a.txt''] = Some (PermissionError ''Permission denied'')"
    by (simp add: copy_failing_def quiet_def)
  have h4: "fault copy_failing ReadText [''a.txt''] = None"
    by (simp add: copy_failing_def quiet_def)
  have h5: "fault copy_failing Mkdir [''a.txt''] = None \<and>
      fault copy_failing WriteText [''a.txt''] = None \<and>
      fault copy_failing Unlink [''a.txt''] = None"
    by (simp add: copy_failing_def quiet_def)
  have h6: "isoformat_now copy_failing = ''2024-01-01T12:00:00''"
    by (simp add: copy_failing_def quiet_def)
  have h7: "configured_max_history (disk_with ''v1'') = 100 \<and>
      operation_history (disk_with ''v1'') = []"
    by (simp add: configured_max_history_def disk_with_def empty_disk_def)
  have h8: "files (disk_with ''v1'') [''b.txt''] = None"
    by (simp add: disk_with_def empty_disk_def)
  have h9: "leaves copy_failing Copy2 [''a.txt''] = None"
    by (simp add: copy_failing_def quiet_def)
  from backup_failure_does_not_block [OF h1 h2 h3 h4, of "''v2''"] h1 h2 h3 h4 h5 h6 h7 h8 h9
  show ?thesis
    by (auto simp add: trim_history_def)
qed

subsection \<open>Remove, then undo\<close>




subsection \<open>An undo that fails\<close>

text \<open>
  C10: \<^verbatim>\<open>undo_last_operation\<close> pops the newest record before it touches the disk. When the
  reversal raises, the call raises \<^verbatim>\<open>FileOperationError\<close> (the tool \<^verbatim>\<open>_fs_undo\<close> returns the
  failure dictionary with its message), and the history has lost the record: it is the old
  history without its last entry. On the disk nothing but the target of the record can have
  changed, and nothing at all when the primitive that raised had not yet written.
\<close>

theorem failed_undo_consumes_record:
  assumes "operation_history s \<noteq> []" and "undo_last_operation e s = (Inl x, s')"
  shows "operation_history s' = butlast (operation_history s) \<and>
         (\<forall>q. q \<noteq> file_path (last (operation_history s)) \<longrightarrow> files s' q = files s q) \<and>
         ((\<forall>pr q. leaves e pr q = None) \<longrightarrow> files s' = files s) \<and>
         (\<exists>m. x = FileOperationError m) \<and>
         fs_undo e s = (Inr (ErrorDict (str_exn x)), s')"
  using assms
  by (auto simp add: undo_last_operation_def fs_undo_def undo_error_def restore_prior_def
      copy2_def write_text_def unlink_def left_by_elsewhere Let_def
      split: sum.splits if_splits option.splits prod.splits)

theorem failed_undo_consumes_record_witness:
  "operation_history removed_disk \<noteq> [] \<and>
   fst (undo_last_operation copy_failing removed_disk) =
     Inl (FileOperationError ''Error undoing operation: Permission denied'') \<and>
   operation_history (snd (undo_last_operation copy_failing removed_disk)) = [] \<and>
   butlast (operation_history removed_disk) = [] \<and>
   files (snd (undo_last_operation copy_failing removed_disk)) [''a.txt''] = None \<and>
   fst (fs_undo copy_failing removed_disk) =
     Inr (ErrorDict ''Error undoing operation: Permission denied'')"
proof -
  have h1: "operation_history removed_disk \<noteq> []"
    by (simp add: removed_disk_def engine_defs)
  have h2: "fst (undo_last_operation copy_failing removed_disk) =
     Inl (FileOperationError ''Error undoing operation: Permission denied'')"
    by (simp add: removed_disk_def engine_defs)
  then have h3: "undo_last_operation copy_failing removed_disk =
     (Inl (FileOperationError ''Error undoing operation: Permission denied''),
      snd (undo_last_operation copy_failing removed_disk))"
    by (simp add: prod_eq_iff)
  have h4: "butlast (operation_history removed_disk) = []"
    by (simp add: removed_disk_def engine_defs)
  have h5: "files (snd (undo_last_operation copy_failing removed_disk)) [''a.txt''] = None"
    by (simp add: removed_disk_def engine_defs)
  from failed_undo_consumes_record [OF h1 h3] h1 h2 h4 h5 show ?thesis by simp
qed

subsection \<open>The bound on the history\<close>

text \<open>
  For a \<^verbatim>\<open>max_history\<close> of at least one, \<^verbatim>\<open>_add_to_history\<close> keeps the bound: the history it
  leaves is the last \<^verbatim>\<open>max_history\<close> entries of the old history with the new record appended.
\<close>

lemma trim_history_bound:
  assumes "1 \<le> mh"
  shows "int (length (trim_history mh h)) \<le> mh \<and>
         trim_history mh h = drop (length h - nat mh) h"
  using assms by (auto simp add: trim_history_def py_slice_from_def nat_diff_distrib')

lemma add_to_history_bound:
  "1 \<le> configured_max_history s \<Longrightarrow>
   int (length (operation_history (add_to_history e s opn fp bp oc))) \<le> configured_max_history s"
  by (simp add: add_to_history_def Let_def trim_history_bound)

lemma history_bound_example:
  "map file_path (operation_history
     (write_all bounded_disk
        [([''a.txt''], ''1''), ([''b.txt''], ''2''), ([''c.txt''], ''3''), ([''d.txt''], ''4''),
         ([''e.txt''], ''5'')])) =
     [[''c.txt''], [''d.txt''], [''e.txt'']]"
  by (simp add: bounded_disk_def engine_defs)

text \<open>
  C6. The claim: after every sequence of mutating operations the history is no longer than
  the configured \<^verbatim>\<open>max_history\<close>. With \<^verbatim>\<open>max_history = 0\<close> the slice
  \<^verbatim>\<open>self.operation_history[-max_history:]\<close> is \<^verbatim>\<open>[-0:]\<close>, the whole list, so nothing is
  evicted: after two writes the history holds both records, where the claim allows none.
\<close>

theorem history_unbounded_at_zero:
  "configured_max_history unbounded_disk = 0 \<and>
   length (operation_history
     (write_all unbounded_disk [([''a.txt''], ''1''), ([''b.txt''], ''2'')])) = 2 \<and>
   map file_path (operation_history
     (write_all unbounded_disk [([''a.txt''], ''1''), ([''b.txt''], ''2'')])) =
     [[''a.txt''], [''b.txt'']]"
  by (simp add: unbounded_disk_def engine_defs)

subsection \<open>Validation before dispatch\<close>

lemma first_missing_Some:
  "first_missing ps kwargs = Some m \<Longrightarrow>
   \<exists>info. (m, info) \<in> set ps \<and> is_required info \<and> kwargs m = None"
  by (induction ps kwargs rule: first_missing.induct) (auto split: if_splits)

lemma first_missing_None:
  "first_missing ps kwargs = None \<Longrightarrow> (n, info) \<in> set ps \<Longrightarrow> is_required info \<Longrightarrow>
   kwargs n \<noteq> None"
  by (induction ps kwargs rule: first_missing.induct) (auto split: if_splits)

text \<open>
  C5: for a registered tool, when a parameter that its schema marks as required is not among
  the keyword arguments, \<^verbatim>\<open>execute_tool\<close> returns the failure
  \<^verbatim>\<open>Required parameter "m" missing\<close>, where \<open>m\<close> is the first parameter of the schema that is
  required and absent (the absent one, when it is the only one), and the handler is not called:
  the state the handler acts on is unchanged, and the outcome is the same whatever the handler
  is.
\<close>

theorem missing_required_parameter_rejected:
  assumes "tools tool_name = Some t" and "(n, info) \<in> set (t_parameters t)"
    and "is_required info" and "kwargs n = None"
  shows "\<exists>m info'. first_missing (t_parameters t) kwargs = Some m \<and>
           (m, info') \<in> set (t_parameters t) \<and> is_required info' \<and> kwargs m = None \<and>
           execute_tool tools tool_name kwargs w =
             (Inr (ErrorDict (''Required parameter '' @ dquote @ m @ dquote @ '' missing'')), w) \<and>
           (\<forall>f. execute_tool (tools(tool_name \<mapsto> t\<lparr>t_function := f\<rparr>)) tool_name kwargs w =
                execute_tool tools tool_name kwargs w)"
proof -
  obtain m where m: "first_missing (t_parameters t) kwargs = Some m"
    using first_missing_None [of "t_parameters t" kwargs n info] assms by (cases "first_missing (t_parameters t) kwargs") auto
  then obtain info' where i: "(m, info') \<in> set (t_parameters t)" "is_required info'" "kwargs m = None"
    using first_missing_Some by blast
  from m assms(1) have "execute_tool tools tool_name kwargs w =
             (Inr (ErrorDict (''Required parameter '' @ dquote @ m @ dquote @ '' missing'')), w)"
    by (simp add: execute_tool_def)
  moreover from m assms(1)
  have "\<forall>f. execute_tool (tools(tool_name \<mapsto> t\<lparr>t_function := f\<rparr>)) tool_name kwargs w =
                execute_tool tools tool_name kwargs w"
    by (simp add: execute_tool_def)
  ultimately show ?thesis using m i by blast
qed

theorem missing_required_parameter_rejected_witness:
  "registry ''probe'' = Some counting_tool \<and>
   (''path'', \<lparr>p_type = ''string'', p_required = Some True, p_description = ''Path''\<rparr>)
      \<in> set (t_parameters counting_tool) \<and>
   is_required \<lparr>p_type = ''string'', p_required = Some True, p_description = ''Path''\<rparr> \<and>
   no_arguments ''path'' = None \<and>
   execute_tool registry ''probe'' no_arguments (0::nat) =
     (Inr (ErrorDict (''Required parameter '' @ dquote @ ''path'' @ dquote @ '' missing'')), 0) \<and>
   execute_tool registry ''probe'' [''path'' \<mapsto> Str ''a.txt''] (0::nat) =
     (Inr (ResultDict ()), 1)"
proof -
  have h1: "registry ''probe'' = Some counting_tool" by (simp add: registry_def)
  have h2: "(''path'', \<lparr>p_type = ''string'', p_required = Some True, p_description = ''Path''\<rparr>)
      \<in> set (t_parameters counting_tool)" by (simp add: counting_tool_def)
  have h3: "is_required \<lparr>p_type = ''string'', p_required = Some True, p_description = ''Path''\<rparr>"
    by (simp add: is_required_def)
  have h4: "no_arguments ''path'' = None" by (simp add: no_arguments_def)
  have fm: "first_missing (t_parameters counting_tool) no_arguments = Some ''path''"
    by (simp add: counting_tool_def is_required_def no_arguments_def)
  from missing_required_parameter_rejected
      [where tools = registry and tool_name = "''probe''" and kwargs = no_arguments
         and n = "''path''" and w = "0::nat", OF h1 h2 h3 h4] fm
  have c1: "execute_tool registry ''probe'' no_arguments (0::nat) =
     (Inr (ErrorDict (''Required parameter '' @ dquote @ ''path'' @ dquote @ '' missing'')), 0)"
    by auto
  have c2: "execute_tool registry ''probe'' [''path'' \<mapsto> Str ''a.txt''] (0::nat) =
     (Inr (ResultDict ()), 1)"
    by (simp add: execute_tool_def registry_def counting_tool_def is_required_def)
  from h1 h2 h3 h4 c1 c2 show ?thesis by blast
qed

subsection \<open>The shape of failures\<close>

text \<open>
  C9, as the specification states it: every public operation of the engine and of the registry
  returns a tagged result and lets no exception escape. \<^verbatim>\<open>read_file\<close> on a path that does not
  exist does not return: it raises \<^verbatim>\<open>FileOperationError\<close>.
\<close>

theorem engine_raises_on_missing_file:
  "read_file quiet empty_disk [''missing.txt''] =
     Inl (FileOperationError ''Error reading file missing.txt: File not found: missing.txt'') \<and>
   \<not> returns_result (read_file quiet empty_disk [''missing.txt''])"
  by (simp add: read_file_def read_error_def returns_result_def empty_disk_def)

lemma execute_tool_returns: "returns_result (fst (execute_tool tools tool_name kwargs w))"
  by (simp add: execute_tool_def returns_result_def split: option.splits prod.splits sum.splits)

lemma write_file_raises: "raises_only_file_operation_error (fst (write_file e s p c cb))"
  by (simp add: write_file_def raises_only_file_operation_error_def write_error_def Let_def
      split: option.splits prod.splits sum.splits)

lemma remove_file_raises: "raises_only_file_operation_error (fst (remove_file e s p cb))"
  by (simp add: remove_file_def raises_only_file_operation_error_def remove_error_def Let_def
      split: option.splits prod.splits sum.splits)

lemma undo_raises: "raises_only_file_operation_error (fst (undo_last_operation e s))"
  by (simp add: undo_last_operation_def raises_only_file_operation_error_def undo_error_def Let_def
      split: option.splits prod.splits sum.splits)

lemma read_file_raises: "raises_only_file_operation_error (read_file e s p)"
  by (simp add: read_file_def raises_only_file_operation_error_def read_error_def Let_def
      split: option.splits prod.splits sum.splits py_exn.splits)

lemma search_files_raises:
  "raises_only_file_operation_error (search_files re e s d pat ext cp)"
  by (simp add: search_files_def raises_only_file_operation_error_def search_error_def
      split: option.splits sum.splits)

text \<open>
  C9, amended: \<^verbatim>\<open>execute_tool\<close> and the handlers of the file tools always return a dictionary
  and never raise, and an exception of a handler becomes the failure
  \<^verbatim>\<open>Tool execution failed: ...\<close> with the message of the exception. The methods of the engine
  return on success only: each of their failures leaves them as a raised
  \<^verbatim>\<open>FileOperationError\<close>, and no exception of another class leaves them.
\<close>

theorem failures_are_normalised:
  "returns_result (fst (execute_tool tools tool_name kwargs w)) \<and>
   (tools tool_name = Some t \<and> first_missing (t_parameters t) kwargs = None \<and>
    t_function t kwargs w = (Inl x, w') \<longrightarrow>
      execute_tool tools tool_name kwargs w =
        (Inr (ErrorDict (''Tool execution failed: '' @ str_exn x)), w')) \<and>
   returns_result (fst (fs_write e p c b s)) \<and>
   returns_result (fst (fs_remove e p b s)) \<and>
   returns_result (fst (fs_undo e s)) \<and>
   returns_result (fst (fs_search re e d pat ext cp s)) \<and>
   raises_only_file_operation_error (fst (write_file e s p c cb)) \<and>
   raises_only_file_operation_error (fst (remove_file e s p cb)) \<and>
   raises_only_file_operation_error (fst (undo_last_operation e s)) \<and>
   raises_only_file_operation_error (read_file e s p) \<and>
   raises_only_file_operation_error (search_files re e s d pat ext cp)"
  by (simp add: execute_tool_returns write_file_raises remove_file_raises undo_raises
      read_file_raises search_files_raises)
    (simp add: execute_tool_def fs_write_def fs_remove_def fs_undo_def fs_search_def
      returns_result_def split: prod.splits sum.splits)


theorem failures_are_normalised_witness:
  "registry ''boom'' = Some raising_tool \<and>
   first_missing (t_parameters raising_tool) no_arguments = None \<and>
   t_function raising_tool no_arguments 0 = (Inl (OtherException ''boom''), 1) \<and>
   execute_tool registry ''boom'' no_arguments 0 =
     (Inr (ErrorDict ''Tool execution failed: boom''), 1) \<and>
   returns_result (fst (fs_undo quiet empty_disk)) \<and>
   fst (fs_undo quiet empty_disk) =
     Inr (ErrorDict ''Error undoing operation: No operations to undo'') \<and>
   raises_only_file_operation_error (read_file quiet empty_disk [''missing.txt''])"
proof -
  have h1: "registry ''boom'' = Some raising_tool" by (simp add: registry_def)
  have h2: "first_missing (t_parameters raising_tool) no_arguments = None"
    by (simp add: raising_tool_def)
  have h3: "t_function raising_tool no_arguments 0 = (Inl (OtherException ''boom''), 1)"
    by (simp add: raising_tool_def)
  have h4: "fst (fs_undo quiet empty_disk) =
     Inr (ErrorDict ''Error undoing operation: No operations to undo'')"
    by (simp add: fs_undo_def undo_last_operation_def undo_error_def empty_disk_def)
  note a = failures_are_normalised
      [where tools = registry and tool_name = "''boom''" and kwargs = no_arguments
         and w = "0::nat" and t = raising_tool and x = "OtherException ''boom''"
         and w' = "1::nat" and e = quiet and s = empty_disk and p = "[''missing.txt'']"]
  from a h1 h2 h3 have c1: "execute_tool registry ''boom'' no_arguments 0 =
     (Inr (ErrorDict ''Tool execution failed: boom''), 1)" by simp
  from a have c2: "returns_result (fst (fs_undo quiet empty_disk))" by blast
  from a have c3: "raises_only_file_operation_error (read_file quiet empty_disk [''missing.txt''])"
    by blast
  from h1 h2 h3 h4 c1 c2 c3 show ?thesis by blast
qed

subsection \<open>Search\<close>

lemma count_list_take_le: "count_list (take n xs) c \<le> count_list xs c"
proof (induction xs arbitrary: n)
  case Nil
  then show ?case by simp
next
  case (Cons x xs)
  show ?case
  proof (cases n)
    case 0
    then show ?thesis by simp
  next
    case (Suc k)
    with Cons.IH [of k] show ?thesis by simp
  qed
qed

lemma length_split_nl: "length (split_nl t) = count_list t (CHR 0x0A) + 1"
  by (induction t) (auto split: list.splits)

lemma line_num_le: "line_num t m \<le> length (split_nl t)"
  by (simp add: line_num_def length_split_nl count_list_take_le)

text \<open>The guard of the loop over the examples never fails, so there is one example for each
  of the first five matches.\<close>

lemma example_lines_eq:
  "example_lines e t ms =
     map (\<lambda>m. \<lparr>line_number = line_num t m,
                line_content = str_strip e (split_nl t ! (line_num t m - 1)),
                match_text = snd m\<rparr>) (take 5 ms)"
  by (simp add: example_lines_def Let_def line_num_le)

lemma example_lines_length: "length (example_lines e t ms) = min 5 (length ms)"
  by (simp add: example_lines_eq min.commute)

lemma example_lines_nth:
  assumes "i < length (example_lines e t ms)"
  shows "example_lines e t ms ! i =
     \<lparr>line_number = line_num t (ms ! i),
      line_content = str_strip e (split_nl t ! (line_num t (ms ! i) - 1)),
      match_text = snd (ms ! i)\<rparr>"
  using assms by (simp add: example_lines_eq)

lemma content_search_Some:
  assumes "content_search re e s cp fp fi0 = Inr (Some fi)"
  shows "\<exists>t ms. read_text e s fp = Inr t \<and> re_finditer re cp t = Inr ms \<and> ms \<noteq> [] \<and>
           fi = fi0\<lparr>fi_content_matches := Some (length ms),
                     fi_match_lines := Some (example_lines e t ms)\<rparr>"
  using assms
  by (auto simp add: content_search_def skip_or_raise_def
      split: sum.splits if_splits py_exn.splits)

lemma search_step_Some:
  assumes "search_step re e s pat ext cp fp = Inr (Some fi)" and "cp \<noteq> []"
  shows "fi_file_path fi = fp \<and>
         (\<exists>t ms. read_text e s fp = Inr t \<and> re_finditer re cp t = Inr ms \<and> ms \<noteq> [] \<and>
           fi_content_matches fi = Some (length ms) \<and>
           fi_match_lines fi = Some (example_lines e t ms))"
  using assms
  by (auto simp add: search_step_def Let_def
      split: option.splits if_splits sum.splits bool.splits dest!: content_search_Some)

lemma search_step_matching:
  assumes "files s fp \<noteq> None" and "cp \<noteq> []"
    and "ext = [] \<or> str_lower e (suffix fp) = ext"
    and "pat = [] \<or> re_search re pat (basename fp) = Inr True"
    and "read_text e s fp = Inr t" and "re_finditer re cp t = Inr ms" and "ms \<noteq> []"
    and "search_step re e s pat ext cp fp = Inr r"
  shows "\<exists>fi. r = Some fi \<and> fi_file_path fi = fp \<and> fi_content_matches fi = Some (length ms) \<and>
           fi_match_lines fi = Some (example_lines e t ms)"
  using assms
  by (auto simp add: search_step_def content_search_def Let_def
      split: option.splits if_splits)

lemma search_loop_results:
  assumes "search_loop re e s pat ext cp ps acc = Inr rs" and "fi \<in> set rs"
  shows "fi \<in> set acc \<or> (\<exists>fp \<in> set ps. search_step re e s pat ext cp fp = Inr (Some fi))"
  using assms
proof (induction ps arbitrary: acc)
  case Nil
  then show ?case by simp
next
  case (Cons fp rest)
  show ?case
  proof (cases "search_step re e s pat ext cp fp")
    case (Inl x)
    with Cons.prems show ?thesis by simp
  next
    case (Inr r)
    show ?thesis
    proof (cases r)
      case None
      with Inr Cons.prems Cons.IH [of acc] show ?thesis by auto
    next
      case (Some fi')
      with Inr Cons.prems Cons.IH [of "acc @ [fi']"] show ?thesis by auto
    qed
  qed
qed

text \<open>A loop that ends without an exception has taken every turn, and what a turn appended
  is in the result.\<close>

lemma search_loop_complete:
  assumes "search_loop re e s pat ext cp ps acc = Inr rs"
  shows "set acc \<subseteq> set rs \<and>
         (\<forall>fp \<in> set ps. \<exists>r. search_step re e s pat ext cp fp = Inr r \<and>
                            (\<forall>fi. r = Some fi \<longrightarrow> fi \<in> set rs))"
  using assms
proof (induction ps arbitrary: acc)
  case Nil
  then show ?case by simp
next
  case (Cons fp rest)
  show ?case
  proof (cases "search_step re e s pat ext cp fp")
    case (Inl x)
    with Cons.prems show ?thesis by simp
  next
    case (Inr r)
    show ?thesis
    proof (cases r)
      case None
      with Inr Cons.prems Cons.IH [of acc] show ?thesis by auto
    next
      case (Some fi')
      with Inr Cons.prems Cons.IH [of "acc @ [fi']"] show ?thesis by auto
    qed
  qed
qed

lemma search_step_binary:
  assumes "files s fp = Some (Binary b)" and "cp \<noteq> []" and "fault e ReadText fp = None"
    and "fault e Stat fp = None" and "pat = [] \<or> (\<exists>v. re_search re pat (basename fp) = Inr v)"
  shows "search_step re e s pat ext cp fp = Inr None"
  using assms
  by (auto simp add: search_step_def content_search_def read_text_def skip_or_raise_def Let_def
      split: bool.splits)

text \<open>
  C8: in a search with a content pattern that succeeds, every entry of the result is a text
  file with at least one match of the pattern in the text read from it; its
  \<^verbatim>\<open>content_matches\<close> is the number of all these matches, and its \<^verbatim>\<open>match_lines\<close> are one example
  for each of the first five matches and no more: the number of the line the match starts in,
  the stripped text of that line, and the matched substring. Every file of the walk that
  passes the extension and the filename filter and whose text has a match has an entry, with
  the count of all its matches. A file that is no valid UTF-8 is passed over by
  \<^verbatim>\<open>continue\<close>: it adds no entry and no error, and the loop goes on with the rest as if the
  file were not there (when the steps before the read, the filename pattern and \<^verbatim>\<open>stat\<close>, do
  not raise).
\<close>

theorem search_counts_all_shows_five:
  "(search_files re e s directory pat ext cp = Inr res \<and> cp \<noteq> [] \<and>
    fi \<in> set (s_results res) \<longrightarrow>
      (\<exists>t0 t ms ex.
         files s (fi_file_path fi) = Some (Text t0) \<and>
         read_text e s (fi_file_path fi) = Inr t \<and> t = universal_newlines t0 \<and>
         re_finditer re cp t = Inr ms \<and> ms \<noteq> [] \<and>
         fi_content_matches fi = Some (length ms) \<and>
         fi_match_lines fi = Some ex \<and>
         length ex = min 5 (length ms) \<and>
         (\<forall>i. i < length ex \<longrightarrow>
            line_number (ex ! i) = count_list (take (fst (ms ! i)) t) (CHR 0x0A) + 1 \<and>
            line_number (ex ! i) \<le> length (split_nl t) \<and>
            line_content (ex ! i) = str_strip e (split_nl t ! (line_number (ex ! i) - 1)) \<and>
            match_text (ex ! i) = snd (ms ! i)))) \<and>
   (search_files re e s directory pat ext cp = Inr res \<and> cp \<noteq> [] \<and>
    rglob e directory = Some ps \<and> fp \<in> set ps \<and>
    (ext = [] \<or> str_lower e (suffix fp) = ext) \<and>
    (pat = [] \<or> re_search re pat (basename fp) = Inr True) \<and>
    read_text e s fp = Inr u \<and> re_finditer re cp u = Inr ns \<and> ns \<noteq> [] \<longrightarrow>
      (\<exists>fj \<in> set (s_results res).
         fi_file_path fj = fp \<and> fi_content_matches fj = Some (length ns) \<and>
         fi_match_lines fj = Some (example_lines e u ns))) \<and>
   (files s bp = Some (Binary b) \<and> cp \<noteq> [] \<and> fault e ReadText bp = None \<and>
    fault e Stat bp = None \<and> (pat = [] \<or> (\<exists>v. re_search re pat (basename bp) = Inr v)) \<longrightarrow>
      search_step re e s pat ext cp bp = Inr None \<and>
      search_loop re e s pat ext cp (bp # rest) results =
        search_loop re e s pat ext cp rest results)"
proof (intro conjI)
  show "search_files re e s directory pat ext cp = Inr res \<and> cp \<noteq> [] \<and>
    fi \<in> set (s_results res) \<longrightarrow>
      (\<exists>t0 t ms ex.
         files s (fi_file_path fi) = Some (Text t0) \<and>
         read_text e s (fi_file_path fi) = Inr t \<and> t = universal_newlines t0 \<and>
         re_finditer re cp t = Inr ms \<and> ms \<noteq> [] \<and>
         fi_content_matches fi = Some (length ms) \<and>
         fi_match_lines fi = Some ex \<and>
         length ex = min 5 (length ms) \<and>
         (\<forall>i. i < length ex \<longrightarrow>
            line_number (ex ! i) = count_list (take (fst (ms ! i)) t) (CHR 0x0A) + 1 \<and>
            line_number (ex ! i) \<le> length (split_nl t) \<and>
            line_content (ex ! i) = str_strip e (split_nl t ! (line_number (ex ! i) - 1)) \<and>
            match_text (ex ! i) = snd (ms ! i)))"
  proof
    assume a: "search_files re e s directory pat ext cp = Inr res \<and> cp \<noteq> [] \<and>
      fi \<in> set (s_results res)"
    then obtain ps' where lp: "search_loop re e s pat ext cp ps' [] = Inr (s_results res)"
      by (auto simp add: search_files_def split: option.splits sum.splits)
    from search_loop_results [OF lp, of fi] a
    obtain fp' where "search_step re e s pat ext cp fp' = Inr (Some fi)" by auto
    from search_step_Some [OF this] a
    obtain t ms where tm: "read_text e s (fi_file_path fi) = Inr t"
        "re_finditer re cp t = Inr ms" "ms \<noteq> []"
        "fi_content_matches fi = Some (length ms)"
        "fi_match_lines fi = Some (example_lines e t ms)"
      by auto
    from tm(1) obtain t0 where t0: "files s (fi_file_path fi) = Some (Text t0)"
        "t = universal_newlines t0"
      by (auto simp add: read_text_def split: option.splits data.splits)
    have nth: "\<forall>i. i < length (example_lines e t ms) \<longrightarrow>
            line_number (example_lines e t ms ! i) =
              count_list (take (fst (ms ! i)) t) (CHR 0x0A) + 1 \<and>
            line_number (example_lines e t ms ! i) \<le> length (split_nl t) \<and>
            line_content (example_lines e t ms ! i) =
              str_strip e (split_nl t ! (line_number (example_lines e t ms ! i) - 1)) \<and>
            match_text (example_lines e t ms ! i) = snd (ms ! i)"
      using line_num_le [of t] by (simp add: example_lines_nth) (simp add: line_num_def)
    from tm t0 nth example_lines_length [of e t ms]
    show "\<exists>t0 t ms ex.
         files s (fi_file_path fi) = Some (Text t0) \<and>
         read_text e s (fi_file_path fi) = Inr t \<and> t = universal_newlines t0 \<and>
         re_finditer re cp t = Inr ms \<and> ms \<noteq> [] \<and>
         fi_content_matches fi = Some (length ms) \<and>
         fi_match_lines fi = Some ex \<and>
         length ex = min 5 (length ms) \<and>
         (\<forall>i. i < length ex \<longrightarrow>
            line_number (ex ! i) = count_list (take (fst (ms ! i)) t) (CHR 0x0A) + 1 \<and>
            line_number (ex ! i) \<le> length (split_nl t) \<and>
            line_content (ex ! i) = str_strip e (split_nl t ! (line_number (ex ! i) - 1)) \<and>
            match_text (ex ! i) = snd (ms ! i))"
      by blast
  qed
next
  show "search_files re e s directory pat ext cp = Inr res \<and> cp \<noteq> [] \<and>
    rglob e directory = Some ps \<and> fp \<in> set ps \<and>
    (ext = [] \<or> str_lower e (suffix fp) = ext) \<and>
    (pat = [] \<or> re_search re pat (basename fp) = Inr True) \<and>
    read_text e s fp = Inr u \<and> re_finditer re cp u = Inr ns \<and> ns \<noteq> [] \<longrightarrow>
      (\<exists>fj \<in> set (s_results res).
         fi_file_path fj = fp \<and> fi_content_matches fj = Some (length ns) \<and>
         fi_match_lines fj = Some (example_lines e u ns))"
  proof
    assume a: "search_files re e s directory pat ext cp = Inr res \<and> cp \<noteq> [] \<and>
      rglob e directory = Some ps \<and> fp \<in> set ps \<and>
      (ext = [] \<or> str_lower e (suffix fp) = ext) \<and>
      (pat = [] \<or> re_search re pat (basename fp) = Inr True) \<and>
      read_text e s fp = Inr u \<and> re_finditer re cp u = Inr ns \<and> ns \<noteq> []"
    then have lp: "search_loop re e s pat ext cp ps [] = Inr (s_results res)"
      by (auto simp add: search_files_def split: option.splits sum.splits)
    from search_loop_complete [OF lp] a
    obtain r where r: "search_step re e s pat ext cp fp = Inr r"
        "\<forall>fj. r = Some fj \<longrightarrow> fj \<in> set (s_results res)"
      by blast
    from a have ex: "files s fp \<noteq> None"
      by (auto simp add: read_text_def split: option.splits)
    from a have "cp \<noteq> []" "ext = [] \<or> str_lower e (suffix fp) = ext"
        "pat = [] \<or> re_search re pat (basename fp) = Inr True"
        "read_text e s fp = Inr u" "re_finditer re cp u = Inr ns" "ns \<noteq> []"
      by simp_all
    from search_step_matching [OF ex this r(1)] r(2)
    show "\<exists>fj \<in> set (s_results res).
         fi_file_path fj = fp \<and> fi_content_matches fj = Some (length ns) \<and>
         fi_match_lines fj = Some (example_lines e u ns)"
      by blast
  qed
next
  show "files s bp = Some (Binary b) \<and> cp \<noteq> [] \<and> fault e ReadText bp = None \<and>
    fault e Stat bp = None \<and> (pat = [] \<or> (\<exists>v. re_search re pat (basename bp) = Inr v)) \<longrightarrow>
      search_step re e s pat ext cp bp = Inr None \<and>
      search_loop re e s pat ext cp (bp # rest) results =
        search_loop re e s pat ext cp rest results"
  proof
    assume b: "files s bp = Some (Binary b) \<and> cp \<noteq> [] \<and> fault e ReadText bp = None \<and>
      fault e Stat bp = None \<and> (pat = [] \<or> (\<exists>v. re_search re pat (basename bp) = Inr v))"
    then have st: "search_step re e s pat ext cp bp = Inr None"
      using search_step_binary [of s bp b cp e pat re ext] by blast
    then show "search_step re e s pat ext cp bp = Inr None \<and>
        search_loop re e s pat ext cp (bp # rest) results =
          search_loop re e s pat ext cp rest results"
      by simp
  qed
qed

theorem search_counts_all_shows_five_witness:
  "search_files literal_re walking source_disk [''src''] [] [] ''class'' =
     Inr \<lparr>s_results = [found_a, found_d], s_total_files = 2\<rparr> \<and>
   ''class'' \<noteq> [] \<and>
   found_a \<in> set (s_results \<lparr>s_results = [found_a, found_d], s_total_files = 2\<rparr>) \<and>
   rglob walking [''src''] =
     Some [[''src'', ''a.py''], [''src'', ''b.bin''], [''src'', ''c.py''], [''src'', ''d.py'']] \<and>
   read_text walking source_disk [''src'', ''d.py''] = Inr one_class \<and>
   re_finditer literal_re ''class'' one_class = Inr [(4, ''class'')] \<and>
   files source_disk [''src'', ''b.bin''] = Some (Binary ''xx'') \<and>
   fault walking ReadText [''src'', ''b.bin''] = None \<and>
   fault walking Stat [''src'', ''b.bin''] = None \<and>
   files source_disk (fi_file_path found_a) = Some (Text eight_classes) \<and>
   length (literal_matches ''class'' 0 0 eight_classes) = 8 \<and>
   fi_content_matches found_a = Some 8 \<and>
   map_option length (fi_match_lines found_a) = Some 5 \<and>
   (\<exists>fj \<in> set [found_a, found_d].
      fi_file_path fj = [''src'', ''d.py''] \<and> fi_content_matches fj = Some 1 \<and>
      fi_match_lines fj =
        Some [\<lparr>line_number = 2, line_content = ''class D'', match_text = ''class''\<rparr>]) \<and>
   search_step literal_re walking source_disk [] [] ''class'' [''src'', ''b.bin''] = Inr None"
proof -
  have h1: "search_files literal_re walking source_disk [''src''] [] [] ''class'' =
     Inr \<lparr>s_results = [found_a, found_d], s_total_files = 2\<rparr>"
    by code_simp
  have h2: "''class'' \<noteq> []" by simp
  have h3: "found_a \<in> set (s_results \<lparr>s_results = [found_a, found_d], s_total_files = 2\<rparr>)"
    by simp
  have h4: "files source_disk [''src'', ''b.bin''] = Some (Binary ''xx'')"
    by (simp add: source_disk_def)
  have h5: "fault walking ReadText [''src'', ''b.bin''] = None"
    "fault walking Stat [''src'', ''b.bin''] = None"
    by (simp_all add: walking_def quiet_def)
  have h6: "files source_disk (fi_file_path found_a) = Some (Text eight_classes)"
    by (simp add: source_disk_def found_a_def)
  have h7: "length (literal_matches ''class'' 0 0 eight_classes) = 8" by code_simp
  have h8: "re_finditer literal_re ''class'' (universal_newlines eight_classes) =
      Inr (literal_matches ''class'' 0 0 eight_classes)"
    by code_simp
  have g1: "rglob walking [''src''] =
     Some [[''src'', ''a.py''], [''src'', ''b.bin''], [''src'', ''c.py''], [''src'', ''d.py'']]"
    by (simp add: walking_def)
  have g2: "read_text walking source_disk [''src'', ''d.py''] = Inr one_class"
    by code_simp
  have g3: "re_finditer literal_re ''class'' one_class = Inr [(4, ''class'')]"
    by code_simp
  have g4: "example_lines walking one_class [(4, ''class'')] =
      [\<lparr>line_number = 2, line_content = ''class D'', match_text = ''class''\<rparr>]"
    by code_simp
  note a = search_counts_all_shows_five
      [where re = literal_re and e = walking and s = source_disk and directory = "[''src'']"
         and pat = "[]" and ext = "[]" and cp = "''class''"
         and res = "\<lparr>s_results = [found_a, found_d], s_total_files = 2\<rparr>"
         and fi = found_a
         and ps = "[[''src'', ''a.py''], [''src'', ''b.bin''], [''src'', ''c.py''],
                    [''src'', ''d.py'']]"
         and fp = "[''src'', ''d.py'']" and u = one_class and ns = "[(4, ''class'')]"
         and bp = "[''src'', ''b.bin'']" and b = "''xx''" and rest = "[]" and results = "[]"]
  from a h1 h2 h3 h6 h7 h8 have c1: "fi_content_matches found_a = Some 8" by auto
  from a h1 h2 h3 h6 h7 h8 have c2: "map_option length (fi_match_lines found_a) = Some 5"
    by auto
  from a h1 h2 g1 g2 g3 g4
  have c3: "\<exists>fj \<in> set [found_a, found_d].
      fi_file_path fj = [''src'', ''d.py''] \<and> fi_content_matches fj = Some 1 \<and>
      fi_match_lines fj =
        Some [\<lparr>line_number = 2, line_content = ''class D'', match_text = ''class''\<rparr>]"
    by simp
  from a h2 h4 h5
  have c4: "search_step literal_re walking source_disk [] [] ''class'' [''src'', ''b.bin''] = Inr None"
    by blast
  from h1 h2 h3 g1 g2 g3 h4 h5 h6 h7 c1 c2 c3 c4 show ?thesis by blast
qed

end
